theory Spec2Isabelle
  imports Main "HOL-Library.AList" "HOL-Library.Char_ord" "HOL-Library.List_Lexorder"
begin

text \<open>
  A shallow embedding of the DIGGS schema compatibility analyser: the content model
  resolver of \<open>fixed_resolver.py\<close> and the comparison engine of
  \<open>diggs_compatibility_analyzer.py\<close>. Parsed documents are trees, dictionaries are
  association lists, the memoization cache of the analyser object is passed in and
  returned, and an exception is a value of \<open>py_error\<close> on the left of a sum. Reading
  files, printing and the spreadsheet are left out.
\<close>

section \<open>Strings\<close>

text \<open>
  Python \<open>str\<close> values are modelled as \<^typ>\<open>string\<close>: a character of the model is a
  code point below 256. The functions below are the string methods the analyser uses.
\<close>

datatype py_error = TypeError | ValueError | AttributeError | ZeroDivisionError

definition startswith :: "string \<Rightarrow> string \<Rightarrow> bool" where
  \<comment> \<open>\<open>s.startswith(p)\<close>\<close>
  "startswith s p = (take (length p) s = p)"

function str_remove :: "string \<Rightarrow> string \<Rightarrow> string" where
  \<comment> \<open>\<open>s.replace(pat, '')\<close> for a non-empty \<open>pat\<close>: every non-overlapping occurrence,
      scanning from the left, is deleted\<close>
  "str_remove pat [] = []"
| "str_remove pat (c # cs) =
     (if pat \<noteq> [] \<and> startswith (c # cs) pat
      then str_remove pat (drop (length pat) (c # cs))
      else c # str_remove pat cs)"
  by pat_completeness auto
termination
  by (relation "measure (\<lambda>(pat, s). length s)") (auto simp: neq_Nil_conv)

fun str_split :: "char \<Rightarrow> string \<Rightarrow> string list" where
  \<comment> \<open>\<open>s.split(sep)\<close> for a one-character separator; the result is never empty\<close>
  "str_split sep [] = [[]]"
| "str_split sep (c # cs) =
     (if c = sep then [] # str_split sep cs
      else (case str_split sep cs of
              [] \<Rightarrow> [[c]]
            | p # ps \<Rightarrow> (c # p) # ps))"

definition ascii_digit :: "char \<Rightarrow> bool" where
  "ascii_digit c = List.member ''0123456789'' c"

definition superscript_digit :: "char \<Rightarrow> bool" where
  \<comment> \<open>the superscripts two, three and one, U+00B2, U+00B3 and U+00B9\<close>
  "superscript_digit c = List.member [CHR 0xB2, CHR 0xB3, CHR 0xB9] c"

definition isdigit :: "string \<Rightarrow> bool" where
  \<comment> \<open>\<open>s.isdigit()\<close>: non-empty, and every character a digit; below 256 these are the
      ten decimal digits and the three superscripts\<close>
  "isdigit s = (s \<noteq> [] \<and> list_all (\<lambda>c. ascii_digit c \<or> superscript_digit c) s)"

definition decimal_value :: "string \<Rightarrow> int" where
  \<comment> \<open>the number a string of decimal digits writes\<close>
  "decimal_value s = foldl (\<lambda>a c. 10 * a + (of_char c - 48)) 0 s"

definition py_int :: "string \<Rightarrow> py_error + int" where
  \<comment> \<open>\<open>int(s)\<close>, called only after \<open>s.isdigit()\<close>: a superscript is no literal, and a
      numeral of more than 4300 digits exceeds the interpreter's limit on conversions;
      both raise \<open>ValueError\<close>\<close>
  "py_int s =
     (if s \<noteq> [] \<and> list_all ascii_digit s \<and> length s \<le> 4300 then Inr (decimal_value s)
      else Inl ValueError)"

definition py_str :: "string option \<Rightarrow> string" where
  \<comment> \<open>how an f-string renders a value that may be \<open>None\<close>\<close>
  "py_str x = (case x of None \<Rightarrow> ''None'' | Some s \<Rightarrow> s)"

section \<open>Parsed schema documents\<close>

text \<open>
  An \<open>xml.etree.ElementTree.Element\<close>: tag (in the expanded form \<open>{uri}local\<close>),
  attribute dictionary, text before the first child, children in document order, and
  tail, the text after the end tag; text and tail are \<open>None\<close> or a string. The parser
  keeps neither comments nor processing instructions.
\<close>

datatype xml =
  Element (tag: string) (attrib: "(string \<times> string) list") (elem_text: "string option")
    (children: "xml list") (elem_tail: "string option")

definition plain_element :: "string \<Rightarrow> (string \<times> string) list \<Rightarrow> xml list \<Rightarrow> xml" where
  \<comment> \<open>an element with neither text nor tail\<close>
  "plain_element t a cs = Element t a None cs None"

definition xsd :: "string \<Rightarrow> string" where
  \<comment> \<open>the prefix \<open>xs:\<close> of a search path, expanded with the namespace dictionary; \<open>NS_26\<close>
      and \<open>NS_3\<close> bind \<open>xs\<close> to the same namespace\<close>
  "xsd local_name = ''{http://www.w3.org/2001/XMLSchema}'' @ local_name"

definition get :: "xml \<Rightarrow> string \<Rightarrow> string option" where
  \<comment> \<open>\<open>elem.get(key)\<close>\<close>
  "get e key = map_of (attrib e) key"

definition get_default :: "xml \<Rightarrow> string \<Rightarrow> string \<Rightarrow> string" where
  \<comment> \<open>\<open>elem.get(key, default)\<close>\<close>
  "get_default e key d = (case get e key of None \<Rightarrow> d | Some v \<Rightarrow> v)"

definition truthy :: "string option \<Rightarrow> bool" where
  \<comment> \<open>the truth value of an optional string: neither \<open>None\<close> nor empty\<close>
  "truthy x = (case x of None \<Rightarrow> False | Some s \<Rightarrow> s \<noteq> [])"

fun iter :: "xml \<Rightarrow> xml list" where
  \<comment> \<open>an element followed by all its descendants, in document order\<close>
  "iter (Element t a tx cs tail) = Element t a tx cs tail # concat (map iter cs)"

definition findall_desc :: "xml \<Rightarrow> string \<Rightarrow> xml list" where
  \<comment> \<open>\<open>node.findall('.//xs:local')\<close>: the descendants with that tag, the node itself excluded\<close>
  "findall_desc node local_name =
     filter (\<lambda>x. tag x = xsd local_name) (concat (map iter (children node)))"

definition find_desc :: "xml \<Rightarrow> string \<Rightarrow> xml option" where
  \<comment> \<open>\<open>node.find('.//xs:local')\<close>: the first such descendant\<close>
  "find_desc node local_name =
     (case findall_desc node local_name of [] \<Rightarrow> None | x # _ \<Rightarrow> Some x)"

definition findall_child :: "xml \<Rightarrow> string \<Rightarrow> xml list" where
  \<comment> \<open>\<open>node.findall('xs:local')\<close>: the direct children with that tag\<close>
  "findall_child node local_name = filter (\<lambda>x. tag x = xsd local_name) (children node)"

section \<open>Content model resolver (fixed\_resolver.py)\<close>

record elem_info =
  e_name :: string
  e_type :: string
  minOccurs :: string
  maxOccurs :: string

record attr_info =
  a_name :: "string option"
  a_type :: string
  a_use :: string

type_synonym registry = "(string \<times> xml) list"

text \<open>An \<open>OrderedDict\<close> is an association list; \<^const>\<open>AList.update\<close> is item assignment:
  an existing key keeps its position and takes the new value, a new key goes to the end.
  The functions of the resolver take a \<open>namespaces\<close> dictionary and use it for the
  prefix \<open>xs\<close> of their search paths only; both dictionaries of the source bind that
  prefix to the same namespace, and the argument is left out.\<close>

type_synonym elements_dict = "(string \<times> elem_info) list"
type_synonym attributes_dict = "(string option \<times> attr_info) list"

definition clean_type_name :: "string \<Rightarrow> string" where
  "clean_type_name name = (if name = [] then [] else str_remove ''diggs:'' name)"

definition get_base_type_name :: "xml \<Rightarrow> string option" where
  "get_base_type_name complex_type =
     (case (case find_desc complex_type ''extension'' of
              None \<Rightarrow> None
            | Some extension \<Rightarrow>
                if truthy (get extension ''base'')
                then Some (clean_type_name (the (get extension ''base''))) else None) of
        Some b \<Rightarrow> Some b
      | None \<Rightarrow>
          (case find_desc complex_type ''restriction'' of
             None \<Rightarrow> None
           | Some restriction \<Rightarrow>
               if truthy (get restriction ''base'')
               then Some (clean_type_name (the (get restriction ''base''))) else None))"

definition elem_info_of :: "xml \<Rightarrow> elem_info" where
  "elem_info_of elem =
     \<lparr> e_name = (if truthy (get elem ''name'') then the (get elem ''name'')
                 else clean_type_name (get_default elem ''ref'' [])),
       e_type = clean_type_name (get_default elem ''type'' []),
       minOccurs = get_default elem ''minOccurs'' ''1'',
       maxOccurs = get_default elem ''maxOccurs'' ''1'' \<rparr>"

definition add_element :: "elem_info list \<Rightarrow> xml \<Rightarrow> elem_info list" where
  \<comment> \<open>one pass of the inner loop: append unless the name is already listed\<close>
  "add_element elements elem =
     (let info = elem_info_of elem
      in if list_ex (\<lambda>e. e_name e = e_name info) elements then elements
         else elements @ [info])"

definition extract_elements_from_node :: "xml \<Rightarrow> elem_info list" where
  "extract_elements_from_node node =
     (let elements = foldl (\<lambda>acc seq. foldl add_element acc (findall_child seq ''element''))
                       [] (findall_desc node ''sequence'')
      in foldl (\<lambda>acc choice. foldl add_element acc (findall_child choice ''element''))
           elements (findall_desc node ''choice''))"

definition extract_local_elements :: "xml \<Rightarrow> elem_info list \<times> bool" where
  "extract_local_elements complex_type =
     (let extension = find_desc complex_type ''extension'';
          is_extension = (extension \<noteq> None);
          restriction = find_desc complex_type ''restriction''
      in (case extension of
            Some ext \<Rightarrow> (extract_elements_from_node ext, is_extension)
          | None \<Rightarrow>
              (case restriction of
                 Some r \<Rightarrow> (extract_elements_from_node r, is_extension)
               | None \<Rightarrow> (extract_elements_from_node complex_type, is_extension))))"

definition resolve_attribute_ref :: "string \<Rightarrow> registry \<Rightarrow> attr_info option" where
  "resolve_attribute_ref attr_ref all_attrs =
     (let attr_name = str_remove ''xml:'' (str_remove ''diggs:'' (str_remove ''gml:'' attr_ref))
      in (case map_of all_attrs attr_name of
            Some attr_def \<Rightarrow>
              Some \<lparr> a_name = Some attr_ref,
                     a_type = clean_type_name (get_default attr_def ''type'' []),
                     a_use = ''optional'' \<rparr>
          | None \<Rightarrow> None))"

definition add_attribute :: "registry \<Rightarrow> attr_info list \<Rightarrow> xml \<Rightarrow> attr_info list" where
  \<comment> \<open>one pass of the loop of \<open>extract_local_attributes\<close>\<close>
  "add_attribute all_attrs attributes attr =
     (if truthy (get attr ''ref'')
      then (case resolve_attribute_ref (clean_type_name (the (get attr ''ref''))) all_attrs of
              Some resolved_attr \<Rightarrow>
                attributes @
                  [if truthy (get attr ''use'')
                   then resolved_attr\<lparr>a_use := the (get attr ''use'')\<rparr>
                   else resolved_attr]
            | None \<Rightarrow> attributes)
      else attributes @
             [\<lparr> a_name = get attr ''name'',
                a_type = clean_type_name (get_default attr ''type'' []),
                a_use = get_default attr ''use'' ''optional'' \<rparr>])"

definition extract_local_attributes :: "xml \<Rightarrow> registry \<Rightarrow> attr_info list" where
  "extract_local_attributes complex_type all_attrs =
     foldl (add_attribute all_attrs) [] (findall_desc complex_type ''attribute'')"

definition set_elements :: "elements_dict \<Rightarrow> elem_info list \<Rightarrow> elements_dict" where
  \<comment> \<open>\<open>for elem in local_elements: elements_dict[elem['name']] = elem\<close>\<close>
  "set_elements d local_elements = foldl (\<lambda>acc e. AList.update (e_name e) e acc) d local_elements"

definition set_attributes :: "attributes_dict \<Rightarrow> attr_info list \<Rightarrow> attributes_dict" where
  \<comment> \<open>\<open>for attr in local_attributes: attributes_dict[attr['name']] = attr\<close>\<close>
  "set_attributes d local_attributes =
     foldl (\<lambda>acc a. AList.update (a_name a) a acc) d local_attributes"

function resolve_content_model ::
  "string \<Rightarrow> registry \<Rightarrow> registry \<Rightarrow> string set \<Rightarrow> nat \<Rightarrow> elements_dict \<times> attributes_dict"
where
  "resolve_content_model type_name all_types all_attrs visited depth =
     (if depth > 20 then ([], [])
      else if type_name \<in> visited then ([], [])
      else if startswith type_name ''xs:'' \<or> type_name = [] then ([], [])
      else
        (case map_of all_types (str_remove ''diggs:'' (str_remove ''gml:'' type_name)) of
           None \<Rightarrow> ([], [])
         | Some complex_type \<Rightarrow>
             (let base_type_name = get_base_type_name complex_type;
                  local_elements = fst (extract_local_elements complex_type);
                  is_extension = snd (extract_local_elements complex_type);
                  local_attributes = extract_local_attributes complex_type all_attrs;
                  inherited =
                    (if is_extension \<and> truthy base_type_name
                     then resolve_content_model (the base_type_name) all_types all_attrs
                            (insert type_name visited) (depth + 1)
                     else if truthy base_type_name \<and> \<not> is_extension
                     then ([], snd (resolve_content_model (the base_type_name) all_types
                                      all_attrs (insert type_name visited) (depth + 1)))
                     else ([], []))
              in (set_elements (fst inherited) local_elements,
                  set_attributes (snd inherited) local_attributes))))"
  by pat_completeness auto
termination
  by (relation "measure (\<lambda>(type_name, all_types, all_attrs, visited, depth). 21 - depth)") auto

declare resolve_content_model.simps [simp del]

section \<open>Type compatibility engine (diggs\_compatibility\_analyzer.py)\<close>

text \<open>The reason strings of the engine, one constructor for each message; the arguments
  are the values the f-string interpolates.\<close>

datatype reason =
    Max_recursion_depth_reached
  | Empty_type
  | Types_identical
  | Known_mapping
  | Same_builtin_type
  | Builtin_type_change string string
  | Old_type_not_found string
  | New_type_not_found string
  | Missing_elements "string list"
  | Missing_attributes "string list"
  | New_required_element string
  | New_required_attribute "string option"
  | Cardinality_restricted string
  | Incompatible_type_change string reason
  | Attribute_now_required "string option"
  | Content_models_compatible

type_synonym verdict = "bool \<times> reason"

type_synonym cache = "string \<times> string \<Rightarrow> verdict option"

record analyzer =
  type_mappings :: "(string \<times> string) list"
  old_types :: registry
  old_attrs :: registry
  old_simpletypes :: registry
  new_types :: registry
  new_attrs :: registry
  new_simpletypes :: registry

definition normalize_type_name :: "string \<Rightarrow> string" where
  "normalize_type_name type_name = (if type_name = [] then [] else clean_type_name type_name)"

definition builtins :: "string list" where
  "builtins = [''string'', ''double'', ''float'', ''integer'', ''int'', ''long'', ''short'',
               ''byte'', ''boolean'', ''decimal'', ''date'', ''dateTime'', ''time'',
               ''anyURI'', ''QName'', ''anyType'', ''anySimpleType'']"

definition is_builtin_type :: "string \<Rightarrow> bool" where
  "is_builtin_type type_name =
     (if type_name = [] then False
      else if startswith type_name ''xs:'' then True
      else (let bare_name =
                  (if List.member type_name CHR '':''
                   then drop (Suc (length (takeWhile (\<lambda>c. c \<noteq> CHR '':'') type_name))) type_name
                   else type_name)
            in List.member builtins bare_name))"

definition min_occurs_value :: "string \<Rightarrow> py_error + int" where
  \<comment> \<open>\<open>int(e['minOccurs']) if e['minOccurs'].isdigit() else 0\<close>\<close>
  "min_occurs_value s = (if isdigit s then py_int s else Inr 0)"

definition max_occurs_value :: "string \<Rightarrow> py_error + int" where
  \<comment> \<open>\<open>999999 if e['maxOccurs'] == 'unbounded' else int(e['maxOccurs']) if
      e['maxOccurs'].isdigit() else 1\<close>\<close>
  "max_occurs_value s =
     (if s = ''unbounded'' then Inr 999999 else if isdigit s then py_int s else Inr 1)"

definition cardinality_values :: "elem_info \<Rightarrow> elem_info \<Rightarrow> py_error + int \<times> int \<times> int \<times> int" where
  \<comment> \<open>\<open>min_old\<close>, \<open>min_new\<close>, \<open>max_old\<close> and \<open>max_new\<close>, computed in this order; the
      first conversion that raises ends the computation\<close>
  "cardinality_values e_old e_new =
     (case min_occurs_value (minOccurs e_old) of
        Inl err \<Rightarrow> Inl err
      | Inr min_old \<Rightarrow>
     (case min_occurs_value (minOccurs e_new) of
        Inl err \<Rightarrow> Inl err
      | Inr min_new \<Rightarrow>
     (case max_occurs_value (maxOccurs e_old) of
        Inl err \<Rightarrow> Inl err
      | Inr max_old \<Rightarrow>
     (case max_occurs_value (maxOccurs e_new) of
        Inl err \<Rightarrow> Inl err
      | Inr max_new \<Rightarrow> Inr (min_old, min_new, max_old, max_new)))))"

text \<open>
  Python iterates a \<open>set\<close> in an order the language does not fix. The model lists the
  names of a set difference or intersection in the order of the dictionary they are
  taken from; an entry of the lists below carries the name with the values the loop
  body looks up under it.
\<close>

definition names_minus :: "('k \<times> 'a) list \<Rightarrow> ('k \<times> 'b) list \<Rightarrow> 'k list" where
  \<comment> \<open>\<open>set(d1.keys()) - set(d2.keys())\<close>\<close>
  "names_minus d1 d2 = filter (\<lambda>n. map_of d2 n = None) (remdups (map fst d1))"

definition common_entries :: "('k \<times> 'a) list \<Rightarrow> ('k \<times> 'a) list \<Rightarrow> ('k \<times> 'a \<times> 'a) list" where
  \<comment> \<open>\<open>set(d_old.keys()) & set(d_new.keys())\<close>, each name with \<open>d_old[name]\<close> and
      \<open>d_new[name]\<close>\<close>
  "common_entries d_old d_new =
     concat (map (\<lambda>n. case (map_of d_old n, map_of d_new n) of
                          (Some x, Some y) \<Rightarrow> [(n, x, y)]
                        | _ \<Rightarrow> [])
                 (remdups (map fst d_old)))"

fun check_common_elems ::
  "(cache \<Rightarrow> string \<Rightarrow> string \<Rightarrow> py_error + verdict \<times> cache) \<Rightarrow>
   (string \<times> elem_info \<times> elem_info) list \<Rightarrow> cache \<Rightarrow> py_error + verdict option \<times> cache"
where
  \<comment> \<open>the loop over \<open>common_elems\<close>; \<open>recurse\<close> is the recursive call at \<open>depth + 1\<close>.
      \<open>Some\<close> is an early return with that verdict.\<close>
  "check_common_elems recurse [] cache = Inr (None, cache)"
| "check_common_elems recurse ((elem_name, e_old, e_new) # rest) cache =
     (case cardinality_values e_old e_new of
        Inl err \<Rightarrow> Inl err
      | Inr (min_old, min_new, max_old, max_new) \<Rightarrow>
          if min_new > min_old \<or> max_new < max_old
          then Inr (Some (False, Cardinality_restricted elem_name), cache)
          else if e_type e_old \<noteq> e_type e_new \<and> e_type e_new \<noteq> []
          then (case recurse cache (e_type e_old) (e_type e_new) of
                  Inl err \<Rightarrow> Inl err
                | Inr ((elem_type_compat, elem_reason), cache') \<Rightarrow>
                    if \<not> elem_type_compat
                    then Inr (Some (False, Incompatible_type_change elem_name elem_reason),
                              cache')
                    else check_common_elems recurse rest cache')
          else check_common_elems recurse rest cache)"

lemma check_common_elems_cong [fundef_cong]:
  "(\<And>c t1 t2. recurse c t1 t2 = recurse' c t1 t2) \<Longrightarrow> es = es' \<Longrightarrow> cache = cache' \<Longrightarrow>
   check_common_elems recurse es cache = check_common_elems recurse' es' cache'"
proof -
  assume "\<And>c t1 t2. recurse c t1 t2 = recurse' c t1 t2"
  then have "recurse = recurse'" by (intro ext)
  moreover assume "es = es'" "cache = cache'"
  ultimately show ?thesis by simp
qed

definition structural_comparison ::
  "(cache \<Rightarrow> string \<Rightarrow> string \<Rightarrow> py_error + verdict \<times> cache) \<Rightarrow>
   elements_dict \<times> attributes_dict \<Rightarrow> elements_dict \<times> attributes_dict \<Rightarrow> cache \<Rightarrow>
   py_error + verdict \<times> cache"
where
  \<comment> \<open>the checks of \<open>check_type_content_compatibility\<close> on the two resolved content models;
      every verdict returned here is stored in the cache by the caller\<close>
  "structural_comparison recurse cm_old cm_new cache =
     (let missing_elems = names_minus (fst cm_old) (fst cm_new);
          missing_attrs = names_minus (snd cm_old) (snd cm_new);
          new_elems = filter (\<lambda>(n, e). map_of (fst cm_old) n = None) (fst cm_new);
          new_attrs = filter (\<lambda>(n, a). map_of (snd cm_old) n = None) (snd cm_new)
      in if missing_elems \<noteq> []
         then Inr ((False, Missing_elements (sort (take 3 missing_elems))), cache)
         else if missing_attrs \<noteq> []
         then (if List.member (take 3 missing_attrs) None then Inl TypeError
               else Inr ((False, Missing_attributes (sort (map the (take 3 missing_attrs)))),
                         cache))
         else (case find (\<lambda>(n, e). minOccurs e \<noteq> ''0'') new_elems of
             Some (elem_name, e) \<Rightarrow> Inr ((False, New_required_element elem_name), cache)
           | None \<Rightarrow>
          (case find (\<lambda>(n, a). a_use a = ''required'') new_attrs of
             Some (attr_name, a) \<Rightarrow> Inr ((False, New_required_attribute attr_name), cache)
           | None \<Rightarrow>
          (case check_common_elems recurse (common_entries (fst cm_old) (fst cm_new)) cache of
             Inl err \<Rightarrow> Inl err
           | Inr (Some result, cache') \<Rightarrow> Inr (result, cache')
           | Inr (None, cache') \<Rightarrow>
          (case find (\<lambda>(n, a_old, a_new). a_use a_old = ''optional'' \<and> a_use a_new = ''required'')
                  (common_entries (snd cm_old) (snd cm_new)) of
             Some (attr_name, a_old, a_new) \<Rightarrow>
               Inr ((False, Attribute_now_required attr_name), cache')
           | None \<Rightarrow> Inr ((True, Content_models_compatible), cache'))))))"

lemma structural_comparison_cong [fundef_cong]:
  "(\<And>c t1 t2. recurse c t1 t2 = recurse' c t1 t2) \<Longrightarrow> cm_old = cm_old' \<Longrightarrow> cm_new = cm_new' \<Longrightarrow>
   cache = cache' \<Longrightarrow>
   structural_comparison recurse cm_old cm_new cache =
   structural_comparison recurse' cm_old' cm_new' cache'"
proof -
  assume "\<And>c t1 t2. recurse c t1 t2 = recurse' c t1 t2"
  then have "recurse = recurse'" by (intro ext)
  moreover assume "cm_old = cm_old'" "cm_new = cm_new'" "cache = cache'"
  ultimately show ?thesis by simp
qed

definition store :: "cache \<Rightarrow> string \<times> string \<Rightarrow> verdict \<Rightarrow> py_error + verdict \<times> cache" where
  \<comment> \<open>\<open>self.type_compat_cache[cache_key] = result; return result\<close>\<close>
  "store cache cache_key result = Inr (result, cache(cache_key \<mapsto> result))"

text \<open>
  The source wraps the two calls of \<open>resolve_content_model\<close> in \<open>try\<close>/\<open>except\<close>;
  nothing in \<open>resolve_content_model\<close> raises, so that handler has no branch here.
\<close>

function check_type_content_compatibility ::
  "analyzer \<Rightarrow> cache \<Rightarrow> string \<Rightarrow> string \<Rightarrow> nat \<Rightarrow> py_error + verdict \<times> cache"
where
  "check_type_content_compatibility self cache old_type new_type depth =
     (if depth > 5 then Inr ((True, Max_recursion_depth_reached), cache)
      else
     (case cache (old_type, new_type) of
        Some cached \<Rightarrow> Inr (cached, cache)
      | None \<Rightarrow>
     (let old_normalized = normalize_type_name old_type;
          new_normalized = normalize_type_name new_type
      in if old_normalized = new_normalized
         then store cache (old_type, new_type) (True, Types_identical)
         else if (case map_of (type_mappings self) old_normalized of
                    Some target \<Rightarrow> normalize_type_name target = new_normalized
                  | None \<Rightarrow> False)
         then store cache (old_type, new_type) (True, Known_mapping)
         else if is_builtin_type old_type \<or> is_builtin_type new_type
         then (if old_normalized = new_normalized
               then store cache (old_type, new_type) (True, Same_builtin_type)
               else store cache (old_type, new_type)
                      (False, Builtin_type_change old_normalized new_normalized))
         else if map_of (old_types self) old_normalized = None
         then store cache (old_type, new_type) (False, Old_type_not_found old_normalized)
         else if map_of (new_types self) new_normalized = None
         then store cache (old_type, new_type) (False, New_type_not_found new_normalized)
         else
           (case structural_comparison
                   (\<lambda>c t1 t2. check_type_content_compatibility self c t1 t2 (depth + 1))
                   (resolve_content_model old_normalized (old_types self) (old_attrs self) {} 0)
                   (resolve_content_model new_normalized (new_types self) (new_attrs self) {} 0)
                   cache of
              Inl err \<Rightarrow> Inl err
            | Inr (result, cache') \<Rightarrow> store cache' (old_type, new_type) result))))"
  by pat_completeness auto
termination
  by (relation "measure (\<lambda>(self, cache, old_type, new_type, depth). 6 - depth)") auto

declare check_type_content_compatibility.simps [simp del]

definition is_type_change_compatible ::
  "analyzer \<Rightarrow> cache \<Rightarrow> string \<Rightarrow> string \<Rightarrow> py_error + verdict \<times> cache"
where
  "is_type_change_compatible self cache old_type new_type =
     (if old_type = [] \<or> new_type = [] then Inr ((True, Empty_type), cache)
      else
        (let old_normalized = normalize_type_name old_type;
             new_normalized = normalize_type_name new_type
         in if old_normalized = new_normalized then Inr ((True, Types_identical), cache)
            else if (case map_of (type_mappings self) old_normalized of
                       Some target \<Rightarrow> normalize_type_name target = new_normalized
                     | None \<Rightarrow> False)
            then Inr ((True, Known_mapping), cache)
            else check_type_content_compatibility self cache old_type new_type 0))"

section \<open>Comparison records\<close>

datatype note_item =
    Type_not_found_in_new_version
  | Type_renamed string string
  | Note_new_required_element string
  | Note_new_required_attribute "string option"
  | Element_removed string
  | Attribute_removed "string option"
  | Note_cardinality_restricted string
  | Note_incompatible_type_change string reason
  | Note_attribute_now_required "string option"
  | Base_type_changed_but_compatible
  | SimpleType_not_found_in_new_version
  | SimpleType_renamed string string
  | Restriction_or_base_type_changed

text \<open>The \<open>notes\<close> string of a record is the list of its notes joined by \<open>'; '\<close>:
  \<open>notes += '; ' + n if notes else n\<close> appends \<open>n\<close> to the list, and an assignment
  replaces the list.\<close>

datatype type_change =
    Type_change_ok string string string
  | Type_change_incompatible string string string reason

record result_common =
  name :: string
  type_removed :: string
  base_changed :: string
  r_notes :: "note_item list"
  compatible :: string

record type_result = result_common +
  structure_changes :: string
  new_elements :: "string list"
  missing_elements :: "string list"
  expanded_cardinality :: "string list"
  restricted_cardinality :: "string list"
  type_changes :: "type_change list"

record simpletype_result = result_common +
  restriction_changed :: string

definition format_cardinality :: "string \<Rightarrow> string \<Rightarrow> string" where
  "format_cardinality min_occ max_occ = ''('' @ min_occ @ ''..'' @ max_occ @ '')''"

definition py_sorted :: "string option list \<Rightarrow> py_error + string option list" where
  \<comment> \<open>\<open>sorted(names)\<close> on names that may hold \<open>None\<close>: comparing \<open>None\<close> with a string
      raises \<open>TypeError\<close>\<close>
  "py_sorted names =
     (if List.member names None \<and> length names \<ge> 2 then Inl TypeError
      else Inr (map Some (sort (map the (filter (\<lambda>n. n \<noteq> None) names)))
                @ filter (\<lambda>n. n = None) names))"

definition add_new_element :: "type_result \<Rightarrow> string \<times> elem_info \<Rightarrow> type_result" where
  "add_new_element r entry =
     (let elem_name = fst entry; elem = snd entry;
          r1 = r\<lparr>new_elements := new_elements r @
                     [elem_name @ format_cardinality (minOccurs elem) (maxOccurs elem)]\<rparr>
      in if minOccurs elem \<noteq> ''0''
         then r1\<lparr>compatible := ''No'', r_notes := r_notes r1 @ [Note_new_required_element elem_name]\<rparr>
         else r1)"

definition add_new_attribute :: "attributes_dict \<Rightarrow> type_result \<Rightarrow> string option \<Rightarrow> type_result" where
  "add_new_attribute cm_new_attrs r attr_name =
     (case map_of cm_new_attrs attr_name of
        None \<Rightarrow> r
      | Some attr \<Rightarrow>
          (let r1 = r\<lparr>new_elements := new_elements r @
                         [''@'' @ py_str attr_name @ ''('' @ a_use attr @ '')'']\<rparr>
           in if a_use attr = ''required''
              then r1\<lparr>compatible := ''No'',
                      r_notes := r_notes r1 @ [Note_new_required_attribute attr_name]\<rparr>
              else r1))"

definition add_missing_element :: "type_result \<Rightarrow> string \<Rightarrow> type_result" where
  "add_missing_element r elem_name =
     r\<lparr>missing_elements := missing_elements r @ [elem_name], compatible := ''No'',
       r_notes := r_notes r @ [Element_removed elem_name]\<rparr>"

definition add_missing_attribute :: "type_result \<Rightarrow> string option \<Rightarrow> type_result" where
  "add_missing_attribute r attr_name =
     r\<lparr>missing_elements := missing_elements r @ [''@'' @ py_str attr_name], compatible := ''No'',
       r_notes := r_notes r @ [Attribute_removed attr_name]\<rparr>"

definition classify_cardinality ::
  "type_result \<Rightarrow> string \<times> elem_info \<times> elem_info \<Rightarrow> py_error + type_result"
where
  \<comment> \<open>the \<open>if\<close>/\<open>elif\<close> on the cardinalities of a common element in \<open>compare_type\<close>\<close>
  "classify_cardinality r entry =
     (case entry of (elem_name, e_old, e_new) \<Rightarrow>
        (case cardinality_values e_old e_new of
           Inl err \<Rightarrow> Inl err
         | Inr (min_old, min_new, max_old, max_new) \<Rightarrow>
             (let card = format_cardinality (minOccurs e_new) (maxOccurs e_new)
              in if min_new < min_old \<or> max_new > max_old
                 then Inr (r\<lparr>expanded_cardinality :=
                                expanded_cardinality r @ [elem_name @ card]\<rparr>)
                 else if min_new > min_old \<or> max_new < max_old
                 then Inr (r\<lparr>restricted_cardinality :=
                                restricted_cardinality r @ [elem_name @ card],
                              compatible := ''No'',
                              r_notes := r_notes r @ [Note_cardinality_restricted elem_name]\<rparr>)
                 else Inr r)))"

fun compare_common_elems ::
  "analyzer \<Rightarrow> (string \<times> elem_info \<times> elem_info) list \<Rightarrow> type_result \<Rightarrow> cache \<Rightarrow>
   py_error + type_result \<times> cache"
where
  \<comment> \<open>the loop over \<open>sorted(common_elems)\<close> of \<open>compare_type\<close>\<close>
  "compare_common_elems self [] r cache = Inr (r, cache)"
| "compare_common_elems self ((elem_name, e_old, e_new) # rest) r cache =
     (case classify_cardinality r (elem_name, e_old, e_new) of
        Inl err \<Rightarrow> Inl err
      | Inr r1 \<Rightarrow>
          if e_type e_old \<noteq> e_type e_new \<and> e_type e_new \<noteq> []
          then (case is_type_change_compatible self cache (e_type e_old) (e_type e_new) of
                  Inl err \<Rightarrow> Inl err
                | Inr ((type_compatible, compat_reason), cache') \<Rightarrow>
                    if type_compatible
                    then compare_common_elems self rest
                           (r1\<lparr>type_changes := type_changes r1 @
                                 [Type_change_ok elem_name (e_type e_old) (e_type e_new)]\<rparr>) cache'
                    else compare_common_elems self rest
                           (r1\<lparr>type_changes := type_changes r1 @
                                 [Type_change_incompatible elem_name (e_type e_old) (e_type e_new)
                                    compat_reason],
                               compatible := ''No'',
                               r_notes := r_notes r1 @
                                 [Note_incompatible_type_change elem_name compat_reason]\<rparr>) cache')
          else compare_common_elems self rest r1 cache)"

definition compare_common_attr :: "attributes_dict \<Rightarrow> attributes_dict \<Rightarrow> type_result \<Rightarrow> string option \<Rightarrow> type_result" where
  "compare_common_attr cm_old_attrs cm_new_attrs r attr_name =
     (case (map_of cm_old_attrs attr_name, map_of cm_new_attrs attr_name) of
        (Some a_old, Some a_new) \<Rightarrow>
          if a_use a_old = ''required'' \<and> a_use a_new = ''optional''
          then r\<lparr>expanded_cardinality := expanded_cardinality r @
                   [''@'' @ py_str attr_name @ ''(optional)'']\<rparr>
          else if a_use a_old = ''optional'' \<and> a_use a_new = ''required''
          then r\<lparr>restricted_cardinality := restricted_cardinality r @
                   [''@'' @ py_str attr_name @ ''(required)''],
                 compatible := ''No'',
                 r_notes := r_notes r @ [Note_attribute_now_required attr_name]\<rparr>
          else r
      | _ \<Rightarrow> r)"

definition effective_name :: "string \<Rightarrow> string option \<Rightarrow> string" where
  \<comment> \<open>\<open>mapped_name if mapped_name else qualified_name\<close>\<close>
  "effective_name qualified_name mapped_name =
     (if truthy mapped_name then the mapped_name else qualified_name)"

definition compare_type ::
  "analyzer \<Rightarrow> cache \<Rightarrow> string \<Rightarrow> string option \<Rightarrow> py_error + type_result \<times> cache"
where
  "compare_type self cache qualified_name mapped_name =
     (let result = \<lparr> name = qualified_name, type_removed = [], base_changed = [], r_notes = [],
                     compatible = ''Yes'', structure_changes = [], new_elements = [],
                     missing_elements = [], expanded_cardinality = [],
                     restricted_cardinality = [], type_changes = [] \<rparr>
      in case map_of (new_types self) (effective_name qualified_name mapped_name) of
           None \<Rightarrow>
             Inr (result\<lparr>type_removed := ''Yes'', compatible := ''No'',
                         r_notes := [Type_not_found_in_new_version]\<rparr>, cache)
         | Some ct_new \<Rightarrow>
        (case map_of (old_types self) qualified_name of
           None \<Rightarrow> Inl AttributeError
         | Some ct_old \<Rightarrow>
        (let result = (if truthy mapped_name
                       then result\<lparr>type_removed := ''Renamed to: '' @ the mapped_name,
                                   r_notes := [Type_renamed qualified_name (the mapped_name)]\<rparr>
                       else result\<lparr>type_removed := ''No''\<rparr>);
             base_old = get_base_type_name ct_old;
             base_new = get_base_type_name ct_new;
             result = (if base_old \<noteq> base_new \<and> truthy base_new
                       then result\<lparr>base_changed := the base_new @ '' (was: '' @
                                     (if truthy base_old then the base_old else ''none'') @ '')''\<rparr>
                       else result);
             cm_old = resolve_content_model qualified_name (old_types self) (old_attrs self) {} 0;
             cm_new = resolve_content_model (effective_name qualified_name mapped_name)
                        (new_types self) (new_attrs self) {} 0;
             result = foldl add_new_element result
                        (sort_key fst (filter (\<lambda>(n, e). map_of (fst cm_old) n = None) (fst cm_new)))
         in case py_sorted (names_minus (snd cm_new) (snd cm_old)) of
              Inl err \<Rightarrow> Inl err
            | Inr new_attr_names \<Rightarrow>
        (let result = foldl (add_new_attribute (snd cm_new)) result new_attr_names;
             result = foldl add_missing_element result
                        (sort (names_minus (fst cm_old) (fst cm_new)))
         in case py_sorted (names_minus (snd cm_old) (snd cm_new)) of
              Inl err \<Rightarrow> Inl err
            | Inr missing_attr_names \<Rightarrow>
        (let result = foldl add_missing_attribute result missing_attr_names
         in case compare_common_elems self
                   (sort_key fst (common_entries (fst cm_old) (fst cm_new))) result cache of
              Inl err \<Rightarrow> Inl err
            | Inr (result, cache') \<Rightarrow>
        (case py_sorted (map fst (common_entries (snd cm_old) (snd cm_new))) of
           Inl err \<Rightarrow> Inl err
         | Inr common_attrs \<Rightarrow>
        (let result = foldl (compare_common_attr (snd cm_old) (snd cm_new)) result common_attrs
         in Inr (if compatible result = ''Yes'' \<and> base_changed result \<noteq> []
                 then result\<lparr>r_notes := [Base_type_changed_but_compatible]\<rparr>
                 else result, cache'))))))))"

definition compare_simpletype ::
  "(xml \<Rightarrow> string) \<Rightarrow> analyzer \<Rightarrow> string \<Rightarrow> string option \<Rightarrow> simpletype_result"
where
  \<comment> \<open>\<open>tostring\<close> is \<open>ET.tostring(_, encoding='unicode')\<close>, the serializer of the XML library\<close>
  "compare_simpletype tostring self qualified_name mapped_name =
     (let result = \<lparr> name = qualified_name, type_removed = [], base_changed = [], r_notes = [],
                     compatible = ''Yes'', restriction_changed = [] \<rparr>;
          st_old = map_of (old_simpletypes self) qualified_name
      in case map_of (new_simpletypes self) (effective_name qualified_name mapped_name) of
           None \<Rightarrow>
             result\<lparr>type_removed := ''Yes'', compatible := ''No'',
                    r_notes := [SimpleType_not_found_in_new_version]\<rparr>
         | Some st_new \<Rightarrow>
             (let result = (if truthy mapped_name
                            then result\<lparr>type_removed := ''Renamed to: '' @ the mapped_name,
                                        r_notes := [SimpleType_renamed qualified_name
                                                    (the mapped_name)]\<rparr>
                            else result\<lparr>type_removed := ''No''\<rparr>);
                  old_str = (case st_old of Some e \<Rightarrow> tostring e | None \<Rightarrow> []);
                  new_str = tostring st_new
              in if old_str \<noteq> new_str
                 then result\<lparr>restriction_changed := ''Yes'',
                             r_notes := r_notes result @ [Restriction_or_base_type_changed]\<rparr>
                 else result))"

section \<open>Loading schemas and running the analysis\<close>

text \<open>
  A document is one \<open>.xsd\<close> file found in the directory: the namespace label that
  \<open>_extract_namespace_label\<close> reads from it, and the root element \<open>parse_schema\<close> returns,
  \<open>None\<close> when the file does not parse.
\<close>

type_synonym document = "string \<times> xml option"

definition add_named :: "string \<Rightarrow> registry \<Rightarrow> xml \<Rightarrow> registry" where
  \<comment> \<open>\<open>name = ct.get('name'); if name: all_types[f"{ns_label}:{name}"] = ct\<close>\<close>
  "add_named ns_label reg ct =
     (if truthy (get ct ''name'')
      then AList.update (ns_label @ '':'' @ the (get ct ''name'')) ct reg else reg)"

definition collect_named :: "string \<Rightarrow> (xml \<times> string) list \<Rightarrow> registry" where
  "collect_named local_name schemas_with_ns =
     foldl (\<lambda>reg (schema, ns_label). foldl (add_named ns_label) reg (findall_desc schema local_name))
       [] schemas_with_ns"

definition get_all_attributes :: "xml list \<Rightarrow> registry" where
  "get_all_attributes schemas =
     foldl (\<lambda>all_attrs schema.
              foldl (\<lambda>reg attr. if truthy (get attr ''name'')
                                 then AList.update (the (get attr ''name'')) attr reg else reg)
                all_attrs (findall_desc schema ''attribute''))
       [] schemas"

definition load_schemas ::
  "document list \<Rightarrow> py_error + (xml \<times> string) list \<times> registry \<times> registry \<times> registry"
where
  "load_schemas schema_files =
     (if schema_files = [] then Inl ValueError
      else
        (let schemas_with_ns =
               concat (map (\<lambda>(ns_label, parsed). case parsed of
                                                    Some schema \<Rightarrow> [(schema, ns_label)]
                                                  | None \<Rightarrow> []) schema_files);
             all_types = collect_named ''complexType'' schemas_with_ns;
             all_simpletypes = collect_named ''simpleType'' schemas_with_ns;
             all_attrs = get_all_attributes (map fst schemas_with_ns)
         in Inr (schemas_with_ns, all_types, all_attrs, all_simpletypes)))"

definition mapped_name_for :: "(string \<times> string) list \<Rightarrow> registry \<Rightarrow> string \<Rightarrow> string option" where
  \<comment> \<open>how \<open>analyze\<close> picks \<open>mapped_name\<close> for one old qualified name; the code stands twice in
      \<open>analyze\<close>, with \<open>new_types\<close> for complex types and \<open>new_simpletypes\<close> for simple types\<close>
  "mapped_name_for mappings new_registry qualified_name =
     (let mapped_name = map_of mappings qualified_name
      in if \<not> truthy mapped_name
         then (let bare_name = last (str_split CHR '':'' qualified_name);
                   mapped_name = map_of mappings bare_name
               in if truthy mapped_name \<and> \<not> List.member (the mapped_name) CHR '':''
                  then (let ns_prefix = hd (str_split CHR '':'' qualified_name);
                            potential_new = ns_prefix @ '':'' @ the mapped_name
                        in if map_of new_registry potential_new \<noteq> None
                           then Some potential_new else mapped_name)
                  else mapped_name)
         else mapped_name)"

fun compare_types ::
  "analyzer \<Rightarrow> string list \<Rightarrow> type_result list \<Rightarrow> cache \<Rightarrow> py_error + type_result list \<times> cache"
where
  \<comment> \<open>the loop of \<open>analyze\<close> over \<open>sorted(self.old_types.keys())\<close>\<close>
  "compare_types self [] results cache = Inr (results, cache)"
| "compare_types self (qualified_name # rest) results cache =
     (case compare_type self cache qualified_name
             (mapped_name_for (type_mappings self) (new_types self) qualified_name) of
        Inl err \<Rightarrow> Inl err
      | Inr (result, cache') \<Rightarrow> compare_types self rest (results @ [result]) cache')"

definition analyze ::
  "(xml \<Rightarrow> string) \<Rightarrow> (string \<times> string) list \<Rightarrow> document list \<Rightarrow> document list \<Rightarrow>
   py_error + type_result list \<times> simpletype_result list"
where
  \<comment> \<open>\<open>analyze\<close> after version detection and \<open>load_mappings\<close>, which read the files
      themselves; \<open>mappings\<close> is the loaded table\<close>
  "analyze tostring mappings old_files new_files =
     (case load_schemas old_files of
        Inl err \<Rightarrow> Inl err
      | Inr (old_schemas, old_types', old_attrs', old_simpletypes') \<Rightarrow>
     (case load_schemas new_files of
        Inl err \<Rightarrow> Inl err
      | Inr (new_schemas, new_types', new_attrs', new_simpletypes') \<Rightarrow>
     (let self = \<lparr> type_mappings = mappings, old_types = old_types', old_attrs = old_attrs',
                   old_simpletypes = old_simpletypes', new_types = new_types',
                   new_attrs = new_attrs', new_simpletypes = new_simpletypes' \<rparr>
      in case compare_types self (sort (map fst old_types')) [] (\<lambda>k. None) of
           Inl err \<Rightarrow> Inl err
         | Inr (results, cache) \<Rightarrow>
             (let simpletype_results =
                    map (\<lambda>qualified_name.
                           compare_simpletype tostring self qualified_name
                             (mapped_name_for mappings new_simpletypes' qualified_name))
                      (sort (map fst old_simpletypes'))
              in if results = [] then Inl ZeroDivisionError
                 else Inr (results, simpletype_results)))))"

section \<open>Notions of the specification\<close>





definition is_numeral :: "string \<Rightarrow> bool" where
  \<comment> \<open>a decimal numeral that \<open>int\<close> converts: decimal digits, at most 4300 of them\<close>
  "is_numeral s = (s \<noteq> [] \<and> list_all ascii_digit s \<and> length s \<le> 4300)"


definition cardinality_restricted :: "elem_info \<Rightarrow> elem_info \<Rightarrow> bool" where
  \<comment> \<open>the cardinality test of the engine holds: the four values are computed and
      \<open>min_new > min_old or max_new < max_old\<close>\<close>
  "cardinality_restricted e_old e_new =
     (case cardinality_values e_old e_new of
        Inl err \<Rightarrow> False
      | Inr (min_old, min_new, max_old, max_new) \<Rightarrow> min_new > min_old \<or> max_new < max_old)"



definition parsed_documents :: "document list \<Rightarrow> (xml \<times> string) list" where
  \<comment> \<open>the documents that parse, each with its namespace label, in the order of the files\<close>
  "parsed_documents schema_files =
     concat (map (\<lambda>(ns_label, parsed). case parsed of
                                          Some schema \<Rightarrow> [(schema, ns_label)]
                                        | None \<Rightarrow> []) schema_files)"

definition named_entries :: "string \<Rightarrow> (xml \<times> string) list \<Rightarrow> (string \<times> xml) list" where
  \<comment> \<open>the definitions with a non-empty name in the documents, in document order, each under
      its qualified name\<close>
  "named_entries local_name schemas_with_ns =
     concat (map (\<lambda>(schema, ns_label).
                    map (\<lambda>ct. (ns_label @ '':'' @ the (get ct ''name''), ct))
                      (filter (\<lambda>ct. truthy (get ct ''name'')) (findall_desc schema local_name)))
                 schemas_with_ns)"

definition named_attributes :: "xml list \<Rightarrow> (string \<times> xml) list" where
  \<comment> \<open>the attribute declarations with a non-empty name in the documents, in document order,
      each under its bare name\<close>
  "named_attributes schemas =
     concat (map (\<lambda>schema.
                    map (\<lambda>attr. (the (get attr ''name''), attr))
                      (filter (\<lambda>attr. truthy (get attr ''name'')) (findall_desc schema ''attribute'')))
                 schemas)"

definition cache_identity_ok :: "cache \<Rightarrow> bool" where
  \<comment> \<open>what the engine keeps true of its cache: a pair of names with the same normal form
      is stored with the verdict of the identity rule only\<close>
  "cache_identity_ok cache =
     (\<forall>old_type new_type v.
        cache (old_type, new_type) = Some v \<longrightarrow>
        normalize_type_name old_type = normalize_type_name new_type \<longrightarrow>
        v = (True, Types_identical))"

definition verdict_of :: "py_error + verdict \<times> cache \<Rightarrow> py_error + verdict" where
  \<comment> \<open>the verdict of a call, without the cache it leaves\<close>
  "verdict_of r = (case r of Inl err \<Rightarrow> Inl err | Inr (v, c) \<Rightarrow> Inr v)"

definition record_of :: "py_error + 'a \<times> cache \<Rightarrow> py_error + 'a" where
  \<comment> \<open>the record of a comparison, without the cache it leaves\<close>
  "record_of r = (case r of Inl err \<Rightarrow> Inl err | Inr (x, c) \<Rightarrow> Inr x)"

definition spec_ref_use :: "xml \<Rightarrow> xml \<Rightarrow> string" where
  \<comment> \<open>The specification's rule for a reference: the local \<open>use\<close> when the reference has
      one, else the \<open>use\<close> of the referenced declaration (\<open>optional\<close> by default).\<close>
  "spec_ref_use attr attr_def =
     (case get attr ''use'' of
        Some u \<Rightarrow> u
      | None \<Rightarrow> get_default attr_def ''use'' ''optional'')"

definition spec_build_fails :: "document list \<Rightarrow> bool" where
  \<comment> \<open>The specification's rule: building the index fails when no documents are supplied
      or none of them parses.\<close>
  "spec_build_fails schema_files =
     (schema_files = [] \<or> list_all (\<lambda>d. snd d = None) schema_files)"

definition spec_mapped_name_for ::
  "(string \<times> string) list \<Rightarrow> registry \<Rightarrow> string \<Rightarrow> string option"
where
  \<comment> \<open>The specification's two tiers: an exact entry; else an entry under the bare local
      name, whose unqualified target is re-qualified with the old type's namespace label
      and accepted only if that name is in the new registry.\<close>
  "spec_mapped_name_for mappings new_registry qualified_name =
     (case map_of mappings qualified_name of
        Some target \<Rightarrow> Some target
      | None \<Rightarrow>
          (case map_of mappings (last (str_split CHR '':'' qualified_name)) of
             None \<Rightarrow> None
           | Some target \<Rightarrow>
               if List.member target CHR '':'' then Some target
               else if map_of new_registry
                         (hd (str_split CHR '':'' qualified_name) @ '':'' @ target) \<noteq> None
               then Some (hd (str_split CHR '':'' qualified_name) @ '':'' @ target)
               else None))"

section \<open>Example schemas\<close>

definition mk_element :: "string \<Rightarrow> string \<Rightarrow> string \<Rightarrow> string \<Rightarrow> xml" where
  "mk_element n t mn mx =
     plain_element (xsd ''element'')
       [(''name'', n), (''type'', t), (''minOccurs'', mn), (''maxOccurs'', mx)] []"

definition mk_sequence :: "xml list \<Rightarrow> xml" where
  "mk_sequence es = plain_element (xsd ''sequence'') [] es"

definition mk_type :: "string \<Rightarrow> xml list \<Rightarrow> xml" where
  "mk_type n body = plain_element (xsd ''complexType'') [(''name'', n)] body"

definition mk_derived :: "string \<Rightarrow> string \<Rightarrow> xml list \<Rightarrow> xml" where
  \<comment> \<open>\<open>complexContent\<close> holding an \<open>extension\<close> or a \<open>restriction\<close> of a base\<close>
  "mk_derived kind base body =
     plain_element (xsd ''complexContent'') [] [plain_element (xsd kind) [(''base'', base)] body]"

definition example_analyzer :: analyzer where
  \<comment> \<open>old \<open>eml:A\<close> holds \<open>x\<close> with \<open>0..1000000\<close>, new \<open>eml:B\<close> holds \<open>x\<close> with \<open>0..unbounded\<close>\<close>
  "example_analyzer =
     \<lparr> type_mappings = [],
       old_types = [(''eml:A'', mk_type ''A''
                       [mk_sequence [mk_element ''x'' ''xs:string'' ''0'' ''1000000'']])],
       old_attrs = [], old_simpletypes = [],
       new_types = [(''eml:B'', mk_type ''B''
                       [mk_sequence [mk_element ''x'' ''xs:string'' ''0'' ''unbounded'']])],
       new_attrs = [], new_simpletypes = [] \<rparr>"

definition mk_attribute :: "string \<Rightarrow> string \<Rightarrow> xml" where
  "mk_attribute n use =
     plain_element (xsd ''attribute'') [(''name'', n), (''type'', ''xs:string''), (''use'', use)] []"

definition restricted_restriction :: xml where
  "restricted_restriction =
     plain_element (xsd ''restriction'') [(''base'', ''Base'')]
       [mk_sequence [mk_element ''a'' ''xs:string'' ''0'' ''1'']]"

definition restricted_type :: xml where
  "restricted_type =
     mk_type ''Restricted'' [plain_element (xsd ''complexContent'') [] [restricted_restriction]]"

definition derived_extension :: xml where
  "derived_extension =
     plain_element (xsd ''extension'') [(''base'', ''Base'')]
       [mk_sequence [mk_element ''b'' ''xs:string'' ''1'' ''1'',
                     mk_element ''a'' ''xs:string'' ''1'' ''1'']]"

definition derived_type :: xml where
  "derived_type = mk_type ''Derived'' [plain_element (xsd ''complexContent'') [] [derived_extension]]"

definition nested_restriction :: xml where
  \<comment> \<open>a restriction of \<open>Base\<close> that declares \<open>a\<close> with an anonymous type, itself an
      extension of \<open>xs:double\<close> by the attribute \<open>uom\<close>\<close>
  "nested_restriction =
     plain_element (xsd ''restriction'') [(''base'', ''Base'')]
       [mk_sequence
          [plain_element (xsd ''element'') [(''name'', ''a''), (''minOccurs'', ''0''), (''maxOccurs'', ''1'')]
             [plain_element (xsd ''complexType'') []
                [plain_element (xsd ''simpleContent'') []
                   [plain_element (xsd ''extension'') [(''base'', ''xs:double'')]
                      [mk_attribute ''uom'' ''required'']]]]]]"

definition nested_type :: xml where
  "nested_type = mk_type ''Nested'' [plain_element (xsd ''complexContent'') [] [nested_restriction]]"

definition ref_attribute :: xml where
  \<comment> \<open>a reference to the attribute \<open>id\<close> that carries no \<open>use\<close>\<close>
  "ref_attribute = plain_element (xsd ''attribute'') [(''ref'', ''id'')] []"

definition id_declaration :: xml where
  "id_declaration = mk_attribute ''id'' ''required''"

definition cyc_a_type :: xml where
  "cyc_a_type =
     mk_type ''CycA''
       [mk_derived ''extension'' ''CycB''
          [mk_sequence [mk_element ''p'' ''xs:string'' ''1'' ''1'']]]"

definition example_types :: registry where
  \<comment> \<open>\<open>Base\<close> holds \<open>a: 0..1\<close>, \<open>c: 1..1\<close> and the attribute \<open>x\<close>; \<open>Restricted\<close> restricts it
      and declares \<open>a\<close>; \<open>Derived\<close> extends it and declares \<open>b\<close> and a new \<open>a: 1..1\<close>;
      \<open>CycA\<close> and \<open>CycB\<close> extend each other; \<open>WithRef\<close> refers to the attribute \<open>id\<close>;
      \<open>Nested\<close> restricts \<open>Base\<close> and holds an extension in an anonymous type\<close>
  "example_types =
     [(''Base'', mk_type ''Base''
         [mk_sequence [mk_element ''a'' ''xs:string'' ''0'' ''1'',
                       mk_element ''c'' ''xs:string'' ''1'' ''1''],
          mk_attribute ''x'' ''optional'']),
      (''Restricted'', restricted_type),
      (''Derived'', derived_type),
      (''CycA'', cyc_a_type),
      (''CycB'', mk_type ''CycB''
         [mk_derived ''extension'' ''CycA''
            [mk_sequence [mk_element ''q'' ''xs:string'' ''1'' ''1'']]]),
      (''WithRef'', mk_type ''WithRef'' [ref_attribute]),
      (''Nested'', nested_type)]"

definition example_attrs :: registry where
  "example_attrs = [(''id'', id_declaration)]"




fun serialize :: "xml \<Rightarrow> string" where
  \<comment> \<open>a serializer of the elements of the model, to stand for \<open>ET.tostring\<close> on examples:
      tag, attributes, text, children and tail, in order\<close>
  "serialize (Element t a tx cs tail) =
     ''<'' @ t @ concat (map (\<lambda>(k, v). '' '' @ k @ ''='' @ v) a) @ ''>'' @
     (case tx of None \<Rightarrow> [] | Some x \<Rightarrow> x) @ concat (map serialize cs) @ ''</'' @ t @ ''>'' @
     (case tail of None \<Rightarrow> [] | Some x \<Rightarrow> x)"

definition mk_simpletype :: "string \<Rightarrow> string \<Rightarrow> xml" where
  "mk_simpletype n base =
     plain_element (xsd ''simpleType'') [(''name'', n)] [plain_element (xsd ''restriction'') [(''base'', base)] []]"

definition spaced_simpletype :: "string option \<Rightarrow> xml" where
  \<comment> \<open>the simple type \<open>W\<close>, followed by the given tail\<close>
  "spaced_simpletype tail =
     Element (xsd ''simpleType'') [(''name'', ''W'')] None
       [plain_element (xsd ''restriction'') [(''base'', ''xs:string'')] []] tail"

definition renaming_analyzer :: analyzer where
  \<comment> \<open>\<open>eml:Foo\<close> and the simple type \<open>eml:S\<close> are in both versions, \<open>eml:Old\<close> became
      \<open>eml:New\<close>; the mapping file names a target \<open>Bar\<close> for \<open>Foo\<close> that no version has, and
      the target \<open>New\<close> for \<open>Old\<close>. The base of \<open>eml:S\<close> changed, \<open>eml:W\<close> lost the line
      break that followed it, \<open>eml:K\<close> is as it was, and \<open>eml:Gone\<close> is in the old
      version only.\<close>
  "renaming_analyzer =
     \<lparr> type_mappings = [(''Foo'', ''Bar''), (''Old'', ''New'')],
       old_types = [(''eml:Foo'', mk_type ''Foo''
                       [mk_sequence [mk_element ''x'' ''xs:string'' ''1'' ''1'']]),
                    (''eml:Old'', mk_type ''Old''
                       [mk_sequence [mk_element ''y'' ''xs:string'' ''1'' ''1'']])],
       old_attrs = [],
       old_simpletypes = [(''eml:S'', mk_simpletype ''S'' ''xs:string''),
                          (''eml:W'', spaced_simpletype (Some [CHR 0x0A])),
                          (''eml:K'', mk_simpletype ''K'' ''xs:string''),
                          (''eml:Gone'', mk_simpletype ''Gone'' ''xs:string'')],
       new_types = [(''eml:Foo'', mk_type ''Foo''
                       [mk_sequence [mk_element ''x'' ''xs:string'' ''1'' ''1'']]),
                    (''eml:New'', mk_type ''New''
                       [mk_sequence [mk_element ''y'' ''xs:string'' ''1'' ''1'']])],
       new_attrs = [],
       new_simpletypes = [(''eml:S'', mk_simpletype ''S'' ''xs:int''),
                          (''eml:W'', spaced_simpletype None),
                          (''eml:K'', mk_simpletype ''K'' ''xs:string'')] \<rparr>"

definition schema_document :: "xml list \<Rightarrow> xml" where
  "schema_document body = plain_element (xsd ''schema'') [] body"

definition example_document :: xml where
  \<comment> \<open>a document with two complex types of the same name, a simple type and an attribute\<close>
  "example_document =
     schema_document
       [mk_type ''T'' [mk_sequence [mk_element ''x'' ''xs:string'' ''1'' ''1'']],
        mk_type ''T'' [mk_sequence [mk_element ''y'' ''xs:string'' ''1'' ''1'']],
        mk_simpletype ''S'' ''xs:string'',
        mk_attribute ''id'' ''required'']"

section \<open>Properties of the resolver\<close>

subsection \<open>Ordered dictionaries\<close>




lemma foldl_update_distinct:
  "distinct (map fst d) \<Longrightarrow> distinct (map fst (foldl (\<lambda>acc x. AList.update (key x) x acc) d l))"
  by (induction l rule: rev_induct) (auto simp: distinct_update)


subsection \<open>Local elements have distinct names\<close>





lemma resolve_distinct:
  "distinct (map fst (fst (resolve_content_model type_name all_types all_attrs visited depth))) \<and>
   distinct (map fst (snd (resolve_content_model type_name all_types all_attrs visited depth)))"
proof (induction type_name all_types all_attrs visited depth rule: resolve_content_model.induct)
  case (1 type_name all_types all_attrs visited depth)
  show ?case
    apply (subst (1 2) resolve_content_model.simps)
    using 1
    apply (auto simp: Let_def set_elements_def set_attributes_def foldl_update_distinct
                split: option.splits)
    done
qed

subsection \<open>Termination\<close>

lemma resolve_call_step:
  assumes "resolve_content_model_rel callee (type_name, all_types, all_attrs, visited, depth)"
  shows "depth \<le> 20 \<and> type_name \<notin> visited \<and>
         snd callee = (all_types, all_attrs, insert type_name visited, depth + 1)"
  using assms by (cases rule: resolve_content_model_rel.cases) auto

lemma resolve_all_dom:
  "resolve_content_model_dom (type_name, all_types, all_attrs, visited, depth)"
proof (induction "21 - depth" arbitrary: type_name visited depth rule: less_induct)
  case less
  show ?case
  proof (rule accpI)
    fix callee
    assume "resolve_content_model_rel callee (type_name, all_types, all_attrs, visited, depth)"
    from resolve_call_step [OF this] obtain b where
      "callee = (b, all_types, all_attrs, insert type_name visited, depth + 1)"
      and "depth \<le> 20"
      by (cases callee) auto
    with less [of "depth + 1" b "insert type_name visited"]
    show "resolve_content_model_dom callee" by simp
  qed
qed

text \<open>
  C8. Resolution terminates on every input, cyclic registries included. The call relation
  of \<open>resolve_content_model\<close> (\<open>resolve_content_model_rel callee caller\<close>: the call
  \<open>caller\<close> makes the recursive call \<open>callee\<close>) is well-founded below every call, which is
  what \<open>resolve_content_model_dom\<close> says; a call recurses only from a depth of at most 20
  and on a name that is not in \<open>visited\<close>, and then with the depth one higher and the name
  added to \<open>visited\<close>; and a call with a depth above 20 or with a name in \<open>visited\<close> returns
  the empty content model.
\<close>

theorem resolve_content_model_terminates:
  "resolve_content_model_dom (type_name, all_types, all_attrs, visited, depth) \<and>
   (\<forall>callee. resolve_content_model_rel callee (type_name, all_types, all_attrs, visited, depth)
      \<longrightarrow> depth \<le> 20 \<and> type_name \<notin> visited \<and>
          snd callee = (all_types, all_attrs, insert type_name visited, depth + 1)) \<and>
   (depth > 20 \<or> type_name \<in> visited \<longrightarrow>
      resolve_content_model type_name all_types all_attrs visited depth = ([], []))"
proof (intro conjI allI impI)
  show "resolve_content_model_dom (type_name, all_types, all_attrs, visited, depth)"
    by (rule resolve_all_dom)
next
  fix callee
  assume "resolve_content_model_rel callee (type_name, all_types, all_attrs, visited, depth)"
  from resolve_call_step [OF this]
  show "depth \<le> 20" and "type_name \<notin> visited"
    and "snd callee = (all_types, all_attrs, insert type_name visited, depth + 1)"
    by simp_all
next
  assume "depth > 20 \<or> type_name \<in> visited"
  then show "resolve_content_model type_name all_types all_attrs visited depth = ([], [])"
    by (subst resolve_content_model.simps) auto
qed

lemma cyclic_call_step:
  "resolve_content_model_rel (''CycB'', example_types, [], {''CycA''}, 1)
     (''CycA'', example_types, [], {}, 0)"
proof -
  have h1: "\<not> 20 < (0::nat)" by simp
  have h2: "''CycA'' \<notin> ({} :: string set)" by simp
  have h3: "\<not> (startswith ''CycA'' ''xs:'' \<or> ''CycA'' = [])" by code_simp
  have h4: "map_of example_types (str_remove ''diggs:'' (str_remove ''gml:'' ''CycA'')) =
              Some cyc_a_type"
    by code_simp
  have h9: "snd (extract_local_elements cyc_a_type) \<and> truthy (get_base_type_name cyc_a_type)"
    by code_simp
  have hb: "the (get_base_type_name cyc_a_type) = ''CycB''" by code_simp
  from resolve_content_model_rel.intros(1) [OF h1 h2 h3 h4 refl refl refl refl h9, of "[]"]
  show ?thesis by (simp add: hb)
qed

theorem resolve_content_model_terminates_witness:
  "resolve_content_model_dom (''CycA'', example_types, [], {}, 0) \<and>
   resolve_content_model_rel (''CycB'', example_types, [], {''CycA''}, 1)
     (''CycA'', example_types, [], {}, 0) \<and>
   (0::nat) \<le> 20 \<and> ''CycA'' \<notin> ({} :: string set) \<and>
   ''CycA'' \<in> {''CycB'', ''CycA''} \<and>
   resolve_content_model ''CycA'' example_types [] {''CycB'', ''CycA''} 2 = ([], [])"
proof -
  have member: "''CycA'' \<in> {''CycB'', ''CycA''}" by simp
  from resolve_content_model_terminates [of "''CycA''" example_types "[]" "{}" 0]
  have dom: "resolve_content_model_dom (''CycA'', example_types, [], {}, 0)"
    and step: "\<And>callee. resolve_content_model_rel callee (''CycA'', example_types, [], {}, 0) \<Longrightarrow>
                 (0::nat) \<le> 20 \<and> ''CycA'' \<notin> ({} :: string set)"
    by blast+
  from resolve_content_model_terminates [of "''CycA''" example_types "[]" "{''CycB'', ''CycA''}" 2]
    member
  have cap: "resolve_content_model ''CycA'' example_types [] {''CycB'', ''CycA''} 2 = ([], [])"
    by blast
  from dom cyclic_call_step step [OF cyclic_call_step] member cap show ?thesis by blast
qed

lemma cyclic_types_resolve:
  "resolve_content_model ''CycA'' example_types [] {} 0 =
     ([(''q'', \<lparr>e_name = ''q'', e_type = ''xs:string'', minOccurs = ''1'', maxOccurs = ''1''\<rparr>),
       (''p'', \<lparr>e_name = ''p'', e_type = ''xs:string'', minOccurs = ''1'', maxOccurs = ''1''\<rparr>)],
      [])"
  by code_simp

subsection \<open>Derivation by extension and by restriction\<close>








subsection \<open>Attributes declared by reference\<close>

text \<open>
  C5, as the code has it. For an attribute declared by \<open>ref\<close> whose target is in the
  attribute table, \<open>extract_local_attributes\<close> adds one entry: its name is the reference,
  its type is the type of the referenced declaration, and its \<open>use\<close> is the \<open>use\<close> of the
  reference when that is present and not empty, and \<open>optional\<close> otherwise. The \<open>use\<close> of
  the referenced declaration is not read.
\<close>

theorem ref_attribute_use:
  assumes "get attr ''ref'' = Some ref" and "ref \<noteq> []"
    and "map_of all_attrs
           (str_remove ''xml:'' (str_remove ''diggs:'' (str_remove ''gml:'' (clean_type_name ref)))) =
         Some attr_def"
  shows "add_attribute all_attrs attributes attr =
           attributes @
             [\<lparr> a_name = Some (clean_type_name ref),
                a_type = clean_type_name (get_default attr_def ''type'' []),
                a_use = (if truthy (get attr ''use'') then the (get attr ''use'')
                         else ''optional'') \<rparr>]"
  using assms
  by (simp add: add_attribute_def resolve_attribute_ref_def truthy_def Let_def)

theorem ref_attribute_use_witness:
  "add_attribute example_attrs [] ref_attribute =
     [\<lparr> a_name = Some ''id'', a_type = ''xs:string'', a_use = ''optional'' \<rparr>]"
proof -
  have h1: "get ref_attribute ''ref'' = Some ''id''" by code_simp
  have h2: "''id'' \<noteq> []" by simp
  have h3: "map_of example_attrs
              (str_remove ''xml:'' (str_remove ''diggs:'' (str_remove ''gml:''
                 (clean_type_name ''id'')))) = Some id_declaration"
    by code_simp
  have v: "[] @ [\<lparr> a_name = Some (clean_type_name ''id''),
                   a_type = clean_type_name (get_default id_declaration ''type'' []),
                   a_use = (if truthy (get ref_attribute ''use'')
                            then the (get ref_attribute ''use'') else ''optional'') \<rparr>] =
           [\<lparr> a_name = Some ''id'', a_type = ''xs:string'', a_use = ''optional'' \<rparr>]"
    by code_simp
  show ?thesis
    by (rule trans [OF ref_attribute_use [OF h1 h2 h3, of "[]"] v])
qed

text \<open>
  The claim as the specification words it fails: the declaration of \<open>id\<close> says
  \<open>required\<close>, the reference in \<open>WithRef\<close> carries no \<open>use\<close>, and the resolved attribute is
  \<open>optional\<close>.
\<close>

theorem ref_attribute_use_counterexample:
  "get ref_attribute ''use'' = None \<and>
   spec_ref_use ref_attribute id_declaration = ''required'' \<and>
   snd (resolve_content_model ''WithRef'' example_types example_attrs {} 0) =
     [(Some ''id'', \<lparr> a_name = Some ''id'', a_type = ''xs:string'', a_use = ''optional'' \<rparr>)]"
  by code_simp

section \<open>Properties of the engine\<close>

subsection \<open>The recursion cap\<close>

text \<open>
  C10. Whatever the two type names, the cache, the mapping and the registries are, a call
  of \<open>check_type_content_compatibility\<close> with a depth above 5 returns the verdict
  compatible with the reason "Max recursion depth reached", and leaves the cache as it
  was: nothing is looked up and nothing is stored.
\<close>

theorem depth_cap_returns_compatible:
  "depth > 5 \<Longrightarrow>
   check_type_content_compatibility self cache old_type new_type depth =
     Inr ((True, Max_recursion_depth_reached), cache)"
  by (subst check_type_content_compatibility.simps) simp

theorem depth_cap_returns_compatible_witness:
  "(6::nat) > 5 \<and>
   check_type_content_compatibility example_analyzer (\<lambda>k. None) ''eml:A'' ''eml:B'' 6 =
     Inr ((True, Max_recursion_depth_reached), (\<lambda>k. None))"
  using depth_cap_returns_compatible [of 6 example_analyzer "\<lambda>k. None" "''eml:A''" "''eml:B''"]
  by simp

subsection \<open>The identity rule and the cache\<close>

lemma store_preserves:
  assumes "cache_identity_ok cache"
    and "normalize_type_name old_type = normalize_type_name new_type \<longrightarrow> v = (True, Types_identical)"
    and "store cache (old_type, new_type) v = Inr (r, cache')"
  shows "cache_identity_ok cache'"
proof -
  from assms(3) have c: "cache' = cache((old_type, new_type) \<mapsto> v)"
    by (auto simp: store_def)
  show ?thesis
    unfolding cache_identity_ok_def
  proof (intro allI impI)
    fix o1 n1 w
    assume hit: "cache' (o1, n1) = Some w"
      and same: "normalize_type_name o1 = normalize_type_name n1"
    show "w = (True, Types_identical)"
    proof (cases "(o1, n1) = (old_type, new_type)")
      case True
      with hit c same assms(2) show ?thesis by simp
    next
      case False
      with hit c have "cache (o1, n1) = Some w" by (auto split: if_splits)
      with assms(1) same show ?thesis unfolding cache_identity_ok_def by blast
    qed
  qed
qed

lemma check_common_elems_step:
  "check_common_elems recurse ((elem_name, e_old, e_new) # rest) cache =
     (case cardinality_values e_old e_new of
        Inl err \<Rightarrow> Inl err
      | Inr vals \<Rightarrow>
          if cardinality_restricted e_old e_new
          then Inr (Some (False, Cardinality_restricted elem_name), cache)
          else if e_type e_old \<noteq> e_type e_new \<and> e_type e_new \<noteq> []
          then (case recurse cache (e_type e_old) (e_type e_new) of
                  Inl err \<Rightarrow> Inl err
                | Inr ((elem_type_compat, elem_reason), cache') \<Rightarrow>
                    if \<not> elem_type_compat
                    then Inr (Some (False, Incompatible_type_change elem_name elem_reason),
                              cache')
                    else check_common_elems recurse rest cache')
          else check_common_elems recurse rest cache)"
  by (simp add: cardinality_restricted_def split: sum.splits prod.splits)

declare check_common_elems.simps(2) [simp del]

lemma check_common_elems_preserves:
  assumes "\<And>c t1 t2 v c'. cache_identity_ok c \<Longrightarrow> recurse c t1 t2 = Inr (v, c') \<Longrightarrow>
             cache_identity_ok c'"
    and "cache_identity_ok cache"
    and "check_common_elems recurse es cache = Inr (r, cache')"
  shows "cache_identity_ok cache'"
  using assms(2,3)
proof (induction es arbitrary: cache)
  case Nil
  then show ?case by simp
next
  case (Cons entry es)
  obtain elem_name e_old e_new where entry: "entry = (elem_name, e_old, e_new)"
    by (cases entry) auto
  note run = Cons.prems(2) [unfolded entry check_common_elems_step]
  show ?case
  proof (cases "cardinality_values e_old e_new")
    case (Inl err)
    with run show ?thesis by simp
  next
    case vals: (Inr vals)
    show ?thesis
    proof (cases "cardinality_restricted e_old e_new")
      case True
      with run vals Cons.prems(1) show ?thesis by simp
    next
      case False
      show ?thesis
      proof (cases "e_type e_old \<noteq> e_type e_new \<and> e_type e_new \<noteq> []")
        case differ: True
        show ?thesis
        proof (cases "recurse cache (e_type e_old) (e_type e_new)")
          case (Inl err)
          with run vals False differ show ?thesis by simp
        next
          case (Inr res)
          obtain compat reason c1 where res: "res = ((compat, reason), c1)"
            by (cases res) auto
          from assms(1) [OF Cons.prems(1)] Inr res have ok: "cache_identity_ok c1" by simp
          show ?thesis
          proof (cases compat)
            case True
            with run vals False differ Inr res
            have "check_common_elems recurse es c1 = Inr (r, cache')" by simp
            from Cons.IH [OF ok this] show ?thesis .
          next
            case incompatible: False
            with run vals False differ Inr res ok show ?thesis by simp
          qed
        qed
      next
        case same: False
        with run vals False
        have "check_common_elems recurse es cache = Inr (r, cache')" by auto
        from Cons.IH [OF Cons.prems(1) this] show ?thesis .
      qed
    qed
  qed
qed

lemma structural_comparison_preserves:
  assumes "\<And>c t1 t2 v c'. cache_identity_ok c \<Longrightarrow> recurse c t1 t2 = Inr (v, c') \<Longrightarrow>
             cache_identity_ok c'"
    and "cache_identity_ok cache"
    and "structural_comparison recurse cm_old cm_new cache = Inr (r, cache')"
  shows "cache_identity_ok cache'"
proof -
  have loop: "\<And>x c. check_common_elems recurse (common_entries (fst cm_old) (fst cm_new)) cache =
                 Inr (x, c) \<Longrightarrow> cache_identity_ok c"
    by (rule check_common_elems_preserves [OF assms(1) assms(2)])
  from assms(3) show ?thesis
    unfolding structural_comparison_def Let_def
    using assms(2) loop
    by (auto split: if_splits option.splits sum.splits prod.splits)
qed

lemma check_preserves:
  "cache_identity_ok cache \<Longrightarrow>
   check_type_content_compatibility self cache old_type new_type depth = Inr (r, cache') \<Longrightarrow>
   cache_identity_ok cache'"
proof (induction self cache old_type new_type depth arbitrary: r cache'
         rule: check_type_content_compatibility.induct)
  case (1 self cache old_type new_type depth)
  note ok = "1.prems"(1)
  note run = "1.prems"(2) [unfolded check_type_content_compatibility.simps
                                      [of self cache old_type new_type depth]]
  show ?case
  proof (cases "depth > 5")
    case True
    with run ok show ?thesis by simp
  next
    case shallow: False
    show ?thesis
    proof (cases "cache (old_type, new_type)")
      case (Some cached)
      with run shallow ok show ?thesis by simp
    next
      case None
      show ?thesis
      proof (cases "normalize_type_name old_type = normalize_type_name new_type")
        case True
        with run shallow None
        have "store cache (old_type, new_type) (True, Types_identical) = Inr (r, cache')"
          by (simp add: Let_def)
        from store_preserves [OF ok _ this] show ?thesis by simp
      next
        case differ: False
        have st: "\<And>v c. cache_identity_ok c \<Longrightarrow> store c (old_type, new_type) v = Inr (r, cache') \<Longrightarrow>
                    cache_identity_ok cache'"
          using differ by (rule_tac store_preserves) auto
        let ?mapped = "case map_of (type_mappings self) (normalize_type_name old_type) of
                         Some target \<Rightarrow> normalize_type_name target = normalize_type_name new_type
                       | None \<Rightarrow> False"
        show ?thesis
        proof (cases "?mapped \<or> is_builtin_type old_type \<or> is_builtin_type new_type \<or>
                      map_of (old_types self) (normalize_type_name old_type) = None \<or>
                      map_of (new_types self) (normalize_type_name new_type) = None")
          case True
          with run shallow None differ ok st show ?thesis
            by (auto simp: Let_def split: if_splits)
        next
          case deep: False
          let ?rec = "\<lambda>c t1 t2. check_type_content_compatibility self c t1 t2 (depth + 1)"
          have rec: "\<And>c t1 t2 v c'. cache_identity_ok c \<Longrightarrow> ?rec c t1 t2 = Inr (v, c') \<Longrightarrow>
                       cache_identity_ok c'"
            using "1.IH" [OF shallow None refl refl differ] deep by blast
          from run shallow None differ deep obtain res c1 where
            sc: "structural_comparison ?rec
                   (resolve_content_model (normalize_type_name old_type) (old_types self)
                      (old_attrs self) {} 0)
                   (resolve_content_model (normalize_type_name new_type) (new_types self)
                      (new_attrs self) {} 0) cache = Inr (res, c1)"
            and fin: "store c1 (old_type, new_type) res = Inr (r, cache')"
            by (auto simp: Let_def split: sum.splits)
          from structural_comparison_preserves [OF rec ok sc] have "cache_identity_ok c1" .
          from st [OF this fin] show ?thesis .
        qed
      qed
    qed
  qed
qed

lemma cache_identity_ok_empty: "cache_identity_ok (\<lambda>k. None)"
  by (simp add: cache_identity_ok_def)

lemma is_type_change_compatible_preserves:
  "cache_identity_ok cache \<Longrightarrow>
   is_type_change_compatible self cache old_type new_type = Inr (r, cache') \<Longrightarrow>
   cache_identity_ok cache'"
  by (auto simp: is_type_change_compatible_def Let_def split: if_splits
           dest: check_preserves)

lemma compare_common_elems_preserves:
  "cache_identity_ok cache \<Longrightarrow> compare_common_elems self es r cache = Inr (r', cache') \<Longrightarrow>
   cache_identity_ok cache'"
proof (induction es arbitrary: r cache)
  case Nil
  then show ?case by simp
next
  case (Cons entry es)
  obtain elem_name e_old e_new where entry: "entry = (elem_name, e_old, e_new)"
    by (cases entry) auto
  show ?case
  proof (cases "e_type e_old \<noteq> e_type e_new \<and> e_type e_new \<noteq> []")
    case True
    with Cons.prems(2) entry obtain compat reason c1 r1 where
      call: "is_type_change_compatible self cache (e_type e_old) (e_type e_new) =
               Inr ((compat, reason), c1)"
      and rest: "compare_common_elems self es r1 c1 = Inr (r', cache')"
      by (auto simp: Let_def split: sum.splits prod.splits if_splits)
    from is_type_change_compatible_preserves [OF Cons.prems(1) call]
    have "cache_identity_ok c1" .
    from Cons.IH [OF this rest] show ?thesis .
  next
    case False
    with Cons.prems(2) entry obtain r1 where
      "compare_common_elems self es r1 cache = Inr (r', cache')"
      by (auto simp: Let_def split: sum.splits)
    from Cons.IH [OF Cons.prems(1) this] show ?thesis .
  qed
qed

lemma compare_type_preserves:
  assumes "cache_identity_ok cache"
    and "compare_type self cache qualified_name mapped_name = Inr (r, cache')"
  shows "cache_identity_ok cache'"
  using assms(2) assms(1)
  unfolding compare_type_def Let_def
  by (auto split: option.splits sum.splits prod.splits if_splits
           dest: compare_common_elems_preserves)

lemma compare_types_preserves:
  "cache_identity_ok cache \<Longrightarrow> compare_types self names results cache = Inr (rs, cache') \<Longrightarrow>
   cache_identity_ok cache'"
proof (induction names arbitrary: results cache)
  case Nil
  then show ?case by simp
next
  case (Cons qualified_name names)
  from Cons.prems(2) obtain r c1 where
    one: "compare_type self cache qualified_name
            (mapped_name_for (type_mappings self) (new_types self) qualified_name) = Inr (r, c1)"
    and rest: "compare_types self names (results @ [r]) c1 = Inr (rs, cache')"
    by (auto split: sum.splits prod.splits)
  from compare_type_preserves [OF Cons.prems(1) one] have "cache_identity_ok c1" .
  from Cons.IH [OF this rest] show ?case .
qed

lemma check_identity_rule:
  assumes "normalize_type_name old_type = normalize_type_name new_type"
    and "depth \<le> 5" and "cache_identity_ok cache"
  shows "check_type_content_compatibility self cache old_type new_type depth =
           Inr ((True, Types_identical),
                cache((old_type, new_type) \<mapsto> (True, Types_identical)))"
proof (cases "cache (old_type, new_type)")
  case None
  with assms show ?thesis
    by (subst check_type_content_compatibility.simps) (simp add: Let_def store_def)
next
  case (Some cached)
  with assms have c: "cached = (True, Types_identical)"
    unfolding cache_identity_ok_def by blast
  with Some have "cache((old_type, new_type) \<mapsto> (True, Types_identical)) = cache"
    by (simp add: fun_upd_idem)
  with assms Some c show ?thesis
    by (subst check_type_content_compatibility.simps) simp
qed

lemma identical_names_verdict_always_compatible:
  assumes "normalize_type_name old_type = normalize_type_name new_type"
    and "cache_identity_ok cache"
  shows "\<exists>reason cache'.
           check_type_content_compatibility self cache old_type new_type depth =
             Inr ((True, reason), cache') \<and>
           (reason = Types_identical \<or> reason = Max_recursion_depth_reached)"
proof (cases "depth \<le> 5")
  case True
  from check_identity_rule [OF assms(1) True assms(2)] show ?thesis by blast
next
  case False
  then show ?thesis by (subst check_type_content_compatibility.simps) simp
qed

text \<open>
  C9. Two names with the same normal form are compatible, with the reason "Types
  identical": \<open>is_type_change_compatible\<close> says so for every pair of non-empty names
  whatever the cache, the mapping and the registries hold, and
  \<open>check_type_content_compatibility\<close> says so within the recursion cap, on every cache the
  engine can have built, and stores that verdict. The mapping and the registries are not
  consulted: the result is the same for every analyzer state.
\<close>

theorem identical_names_are_compatible:
  assumes "normalize_type_name old_type = normalize_type_name new_type"
  shows "(old_type \<noteq> [] \<and> new_type \<noteq> [] \<longrightarrow>
            is_type_change_compatible self cache old_type new_type =
              Inr ((True, Types_identical), cache)) \<and>
         (depth \<le> 5 \<and> cache_identity_ok cache \<longrightarrow>
            check_type_content_compatibility self cache old_type new_type depth =
              Inr ((True, Types_identical),
                   cache((old_type, new_type) \<mapsto> (True, Types_identical))))"
proof (intro conjI impI)
  assume "old_type \<noteq> [] \<and> new_type \<noteq> []"
  with assms show "is_type_change_compatible self cache old_type new_type =
                     Inr ((True, Types_identical), cache)"
    by (simp add: is_type_change_compatible_def Let_def)
next
  assume "depth \<le> 5 \<and> cache_identity_ok cache"
  with assms show "check_type_content_compatibility self cache old_type new_type depth =
          Inr ((True, Types_identical),
               cache((old_type, new_type) \<mapsto> (True, Types_identical)))"
    by (simp add: check_identity_rule)
qed

theorem identical_names_are_compatible_witness:
  "is_type_change_compatible example_analyzer (\<lambda>k. None) ''diggs:eml:A'' ''eml:A'' =
     Inr ((True, Types_identical), (\<lambda>k. None)) \<and>
   check_type_content_compatibility example_analyzer (\<lambda>k. None) ''diggs:eml:A'' ''eml:A'' 0 =
     Inr ((True, Types_identical),
          (\<lambda>k. None)((''diggs:eml:A'', ''eml:A'') \<mapsto> (True, Types_identical)))"
proof -
  have n: "normalize_type_name ''diggs:eml:A'' = normalize_type_name ''eml:A''" by code_simp
  have e: "''diggs:eml:A'' \<noteq> [] \<and> ''eml:A'' \<noteq> []" by simp
  have d: "(0::nat) \<le> 5 \<and> cache_identity_ok (\<lambda>k. None)"
    by (simp add: cache_identity_ok_empty)
  from identical_names_are_compatible [OF n, of example_analyzer "\<lambda>k. None" 0] e d
  show ?thesis by blast
qed

subsection \<open>Cardinalities\<close>










lemma unbounded_no_numeral: "\<not> is_numeral ''unbounded''"
  by (simp add: is_numeral_def ascii_digit_def)








lemma check_reaches_structural_comparison:
  assumes "depth \<le> 5" and "cache (old_type, new_type) = None"
    and "normalize_type_name old_type \<noteq> normalize_type_name new_type"
    and "map_of (type_mappings self) (normalize_type_name old_type) = None"
    and "\<not> is_builtin_type old_type" and "\<not> is_builtin_type new_type"
    and "map_of (old_types self) (normalize_type_name old_type) \<noteq> None"
    and "map_of (new_types self) (normalize_type_name new_type) \<noteq> None"
  shows "verdict_of (check_type_content_compatibility self cache old_type new_type depth) =
         verdict_of (structural_comparison
                       (\<lambda>c t1 t2. check_type_content_compatibility self c t1 t2 (depth + 1))
                       (resolve_content_model (normalize_type_name old_type) (old_types self)
                          (old_attrs self) {} 0)
                       (resolve_content_model (normalize_type_name new_type) (new_types self)
                          (new_attrs self) {} 0)
                       cache)"
  using assms
  by (subst check_type_content_compatibility.simps)
     (auto simp: Let_def verdict_of_def store_def split: sum.splits)






text \<open>
  In \<open>compare_type\<close> the test for an expanded cardinality comes first and the test for a
  restricted one is its \<open>elif\<close>: an element whose \<open>minOccurs\<close> goes down while its
  \<open>maxOccurs\<close> goes down too is listed as expanded, and the record stays compatible.
\<close>

lemma classify_cardinality_mixed_change:
  "cardinality_restricted
     \<lparr>e_name = ''x'', e_type = ''xs:string'', minOccurs = ''1'', maxOccurs = ''5''\<rparr>
     \<lparr>e_name = ''x'', e_type = ''xs:string'', minOccurs = ''0'', maxOccurs = ''1''\<rparr> \<and>
   classify_cardinality r
     (''x'', \<lparr>e_name = ''x'', e_type = ''xs:string'', minOccurs = ''1'', maxOccurs = ''5''\<rparr>,
             \<lparr>e_name = ''x'', e_type = ''xs:string'', minOccurs = ''0'', maxOccurs = ''1''\<rparr>) =
     Inr (r\<lparr>expanded_cardinality := expanded_cardinality r @ [''x(0..1)'']\<rparr>)"
proof -
  have v: "cardinality_values
     \<lparr>e_name = ''x'', e_type = ''xs:string'', minOccurs = ''1'', maxOccurs = ''5''\<rparr>
     \<lparr>e_name = ''x'', e_type = ''xs:string'', minOccurs = ''0'', maxOccurs = ''1''\<rparr> =
     Inr (1, 0, 5, 1)"
    by code_simp
  show ?thesis
    by (simp add: cardinality_restricted_def classify_cardinality_def v format_cardinality_def)
qed

section \<open>Properties of loading and of the analysis\<close>

subsection \<open>Loading\<close>

lemma foldl_update_pairs_map_of:
  "map_of (foldl (\<lambda>acc p. AList.update (fst p) (snd p) acc) d l) = map_of d ++ map_of (rev l)"
  by (induction l rule: rev_induct) (auto simp: update_conv' map_add_def fun_eq_iff)

lemma foldl_update_pairs_keys:
  "map fst (foldl (\<lambda>acc p. AList.update (fst p) (snd p) acc) d l) =
     map fst d @ filter (\<lambda>k. k \<notin> set (map fst d)) (rev (remdups (rev (map fst l))))"
  by (induction l rule: rev_induct) (auto simp: update_keys)

lemma foldl_add_named:
  "foldl (add_named ns_label) reg cts =
     foldl (\<lambda>acc p. AList.update (fst p) (snd p) acc) reg
       (map (\<lambda>ct. (ns_label @ '':'' @ the (get ct ''name''), ct))
          (filter (\<lambda>ct. truthy (get ct ''name'')) cts))"
  by (induction cts arbitrary: reg) (simp_all add: add_named_def)

lemma foldl_collect_named:
  "foldl (\<lambda>reg (schema, ns_label). foldl (add_named ns_label) reg (findall_desc schema local_name))
     reg schemas_with_ns =
   foldl (\<lambda>acc p. AList.update (fst p) (snd p) acc) reg (named_entries local_name schemas_with_ns)"
proof (induction schemas_with_ns arbitrary: reg)
  case Nil
  show ?case by (simp add: named_entries_def)
next
  case (Cons d ds)
  obtain schema ns_label where d: "d = (schema, ns_label)" by (cases d) auto
  have split: "named_entries local_name (d # ds) =
      map (\<lambda>ct. (ns_label @ '':'' @ the (get ct ''name''), ct))
        (filter (\<lambda>ct. truthy (get ct ''name'')) (findall_desc schema local_name)) @
      named_entries local_name ds"
    by (simp add: named_entries_def d)
  let ?step = "foldl (add_named ns_label) reg (findall_desc schema local_name)"
  have "foldl (\<lambda>reg (schema, ns_label).
                 foldl (add_named ns_label) reg (findall_desc schema local_name)) reg (d # ds) =
        foldl (\<lambda>reg (schema, ns_label).
                 foldl (add_named ns_label) reg (findall_desc schema local_name)) ?step ds"
    by (simp add: d)
  also have "\<dots> = foldl (\<lambda>acc p. AList.update (fst p) (snd p) acc) ?step
                      (named_entries local_name ds)"
    by (rule Cons.IH)
  also have "\<dots> = foldl (\<lambda>acc p. AList.update (fst p) (snd p) acc) reg
                      (named_entries local_name (d # ds))"
    unfolding split foldl_append foldl_add_named ..
  finally show ?case .
qed

lemma foldl_add_attribute:
  "foldl (\<lambda>reg attr. if truthy (get attr ''name'')
                       then AList.update (the (get attr ''name'')) attr reg else reg) reg attrs =
     foldl (\<lambda>acc p. AList.update (fst p) (snd p) acc) reg
       (map (\<lambda>attr. (the (get attr ''name''), attr))
          (filter (\<lambda>attr. truthy (get attr ''name'')) attrs))"
  by (induction attrs arbitrary: reg) simp_all

lemma foldl_get_all_attributes:
  "foldl (\<lambda>all_attrs schema.
            foldl (\<lambda>reg attr. if truthy (get attr ''name'')
                               then AList.update (the (get attr ''name'')) attr reg else reg)
              all_attrs (findall_desc schema ''attribute''))
     reg schemas =
   foldl (\<lambda>acc p. AList.update (fst p) (snd p) acc) reg (named_attributes schemas)"
proof (induction schemas arbitrary: reg)
  case Nil
  show ?case by (simp add: named_attributes_def)
next
  case (Cons schema schemas)
  have split: "named_attributes (schema # schemas) =
      map (\<lambda>attr. (the (get attr ''name''), attr))
        (filter (\<lambda>attr. truthy (get attr ''name'')) (findall_desc schema ''attribute'')) @
      named_attributes schemas"
    by (simp add: named_attributes_def)
  let ?step = "foldl (\<lambda>reg attr. if truthy (get attr ''name'')
                                     then AList.update (the (get attr ''name'')) attr reg
                                     else reg) reg (findall_desc schema ''attribute'')"
  have "foldl (\<lambda>all_attrs schema.
            foldl (\<lambda>reg attr. if truthy (get attr ''name'')
                               then AList.update (the (get attr ''name'')) attr reg else reg)
              all_attrs (findall_desc schema ''attribute'')) reg (schema # schemas) =
        foldl (\<lambda>all_attrs schema.
            foldl (\<lambda>reg attr. if truthy (get attr ''name'')
                               then AList.update (the (get attr ''name'')) attr reg else reg)
              all_attrs (findall_desc schema ''attribute'')) ?step schemas"
    by simp
  also have "\<dots> = foldl (\<lambda>acc p. AList.update (fst p) (snd p) acc) ?step
                      (named_attributes schemas)"
    by (rule Cons.IH)
  also have "\<dots> = foldl (\<lambda>acc p. AList.update (fst p) (snd p) acc) reg
                      (named_attributes (schema # schemas))"
    unfolding split foldl_append foldl_add_attribute ..
  finally show ?case .
qed

lemma collect_named_registry:
  "map_of (collect_named local_name schemas_with_ns) =
     map_of (rev (named_entries local_name schemas_with_ns)) \<and>
   map fst (collect_named local_name schemas_with_ns) =
     rev (remdups (rev (map fst (named_entries local_name schemas_with_ns))))"
  by (simp add: collect_named_def foldl_collect_named foldl_update_pairs_map_of
                foldl_update_pairs_keys)

lemma get_all_attributes_registry:
  "map_of (get_all_attributes schemas) = map_of (rev (named_attributes schemas)) \<and>
   map fst (get_all_attributes schemas) = rev (remdups (rev (map fst (named_attributes schemas))))"
  by (simp add: get_all_attributes_def foldl_get_all_attributes foldl_update_pairs_map_of
                foldl_update_pairs_keys)

lemma parsed_documents_filter:
  "parsed_documents schema_files =
     map (\<lambda>d. (the (snd d), fst d)) (filter (\<lambda>d. snd d \<noteq> None) schema_files)"
  by (induction schema_files) (auto simp: parsed_documents_def)

lemma load_schemas_loaded:
  "schema_files \<noteq> [] \<Longrightarrow>
   load_schemas schema_files =
     Inr (parsed_documents schema_files,
          collect_named ''complexType'' (parsed_documents schema_files),
          get_all_attributes (map fst (parsed_documents schema_files)),
          collect_named ''simpleType'' (parsed_documents schema_files))"
  by (simp add: load_schemas_def Let_def parsed_documents_def)

text \<open>
  C7, as the code has it. \<open>load_schemas\<close> raises exactly when no schema file is supplied,
  and what it raises is a \<open>ValueError\<close>. When files are supplied it returns: the documents
  that parse, in the order of the files, each with its namespace label; the registry of
  the complex types and the registry of the simple types, which hold the named
  definitions of these documents under their qualified names, a later definition
  replacing an earlier one of the same name, with the names in the order of their first
  definition; and the registry of the attributes, built alike under the bare names. When
  none of the files parses these registries are empty: no error is raised.
\<close>

theorem load_schemas_fails_without_files_only:
  "(load_schemas schema_files = Inl err \<longleftrightarrow> schema_files = [] \<and> err = ValueError) \<and>
   (schema_files \<noteq> [] \<longrightarrow>
      (\<exists>docs types attrs simpletypes.
         load_schemas schema_files = Inr (docs, types, attrs, simpletypes) \<and>
         docs = map (\<lambda>d. (the (snd d), fst d)) (filter (\<lambda>d. snd d \<noteq> None) schema_files) \<and>
         map_of types = map_of (rev (named_entries ''complexType'' docs)) \<and>
         map fst types = rev (remdups (rev (map fst (named_entries ''complexType'' docs)))) \<and>
         map_of simpletypes = map_of (rev (named_entries ''simpleType'' docs)) \<and>
         map fst simpletypes = rev (remdups (rev (map fst (named_entries ''simpleType'' docs)))) \<and>
         map_of attrs = map_of (rev (named_attributes (map fst docs))) \<and>
         map fst attrs = rev (remdups (rev (map fst (named_attributes (map fst docs))))))) \<and>
   (schema_files \<noteq> [] \<and> list_all (\<lambda>d. snd d = None) schema_files \<longrightarrow>
      load_schemas schema_files = Inr ([], [], [], []))"
proof (intro conjI impI)
  show "load_schemas schema_files = Inl err \<longleftrightarrow> schema_files = [] \<and> err = ValueError"
    by (auto simp: load_schemas_def Let_def)
next
  assume ne: "schema_files \<noteq> []"
  let ?docs = "parsed_documents schema_files"
  have "load_schemas schema_files =
          Inr (?docs, collect_named ''complexType'' ?docs, get_all_attributes (map fst ?docs),
               collect_named ''simpleType'' ?docs) \<and>
        ?docs = map (\<lambda>d. (the (snd d), fst d)) (filter (\<lambda>d. snd d \<noteq> None) schema_files) \<and>
        map_of (collect_named ''complexType'' ?docs) =
          map_of (rev (named_entries ''complexType'' ?docs)) \<and>
        map fst (collect_named ''complexType'' ?docs) =
          rev (remdups (rev (map fst (named_entries ''complexType'' ?docs)))) \<and>
        map_of (collect_named ''simpleType'' ?docs) =
          map_of (rev (named_entries ''simpleType'' ?docs)) \<and>
        map fst (collect_named ''simpleType'' ?docs) =
          rev (remdups (rev (map fst (named_entries ''simpleType'' ?docs)))) \<and>
        map_of (get_all_attributes (map fst ?docs)) =
          map_of (rev (named_attributes (map fst ?docs))) \<and>
        map fst (get_all_attributes (map fst ?docs)) =
          rev (remdups (rev (map fst (named_attributes (map fst ?docs)))))"
    using load_schemas_loaded [OF ne] parsed_documents_filter [of schema_files]
      collect_named_registry [of "''complexType''" ?docs]
      collect_named_registry [of "''simpleType''" ?docs]
      get_all_attributes_registry [of "map fst ?docs"]
    by blast
  then show "\<exists>docs types attrs simpletypes.
         load_schemas schema_files = Inr (docs, types, attrs, simpletypes) \<and>
         docs = map (\<lambda>d. (the (snd d), fst d)) (filter (\<lambda>d. snd d \<noteq> None) schema_files) \<and>
         map_of types = map_of (rev (named_entries ''complexType'' docs)) \<and>
         map fst types = rev (remdups (rev (map fst (named_entries ''complexType'' docs)))) \<and>
         map_of simpletypes = map_of (rev (named_entries ''simpleType'' docs)) \<and>
         map fst simpletypes = rev (remdups (rev (map fst (named_entries ''simpleType'' docs)))) \<and>
         map_of attrs = map_of (rev (named_attributes (map fst docs))) \<and>
         map fst attrs = rev (remdups (rev (map fst (named_attributes (map fst docs)))))"
    by (intro exI [of _ ?docs] exI [of _ "collect_named ''complexType'' ?docs"]
              exI [of _ "get_all_attributes (map fst ?docs)"]
              exI [of _ "collect_named ''simpleType'' ?docs"])
next
  assume h: "schema_files \<noteq> [] \<and> list_all (\<lambda>d. snd d = None) schema_files"
  then have e: "parsed_documents schema_files = []"
    by (simp add: parsed_documents_filter list_all_iff filter_empty_conv)
  from h have "load_schemas schema_files =
          Inr ([], collect_named ''complexType'' [], get_all_attributes (map fst []),
               collect_named ''simpleType'' [])"
    using load_schemas_loaded [of schema_files] by (simp add: e)
  then show "load_schemas schema_files = Inr ([], [], [], [])"
    by (simp add: collect_named_def get_all_attributes_def)
qed

theorem load_schemas_fails_without_files_only_witness:
  "load_schemas [] = Inl ValueError \<and>
   load_schemas [(''bad'', None)] = Inr ([], [], [], []) \<and>
   (\<exists>types attrs simpletypes.
      load_schemas [(''eml'', Some example_document), (''bad'', None)] =
        Inr ([(example_document, ''eml'')], types, attrs, simpletypes) \<and>
      map fst types = [''eml:T''] \<and>
      map_of types ''eml:T'' =
        Some (mk_type ''T'' [mk_sequence [mk_element ''y'' ''xs:string'' ''1'' ''1'']]) \<and>
      map fst simpletypes = [''eml:S''] \<and>
      map_of simpletypes ''eml:S'' = Some (mk_simpletype ''S'' ''xs:string'') \<and>
      map fst attrs = [''id''] \<and>
      map_of attrs ''id'' = Some (mk_attribute ''id'' ''required''))"
proof -
  let ?files = "[(''eml'', Some example_document), (''bad'', None)]"
  let ?docs = "[(example_document, ''eml'')]"
  have a: "load_schemas [] = Inl ValueError"
    using load_schemas_fails_without_files_only [of "[]" ValueError] by blast
  have b1: "[(''bad'', None :: xml option)] \<noteq> [] \<and>
            list_all (\<lambda>d. snd d = None) [(''bad'', None :: xml option)]"
    by simp
  have b: "load_schemas [(''bad'', None)] = Inr ([], [], [], [])"
    using load_schemas_fails_without_files_only [of "[(''bad'', None)]"] b1 by blast
  have c1: "?files \<noteq> []" by simp
  have c2: "map (\<lambda>d. (the (snd d), fst d)) (filter (\<lambda>d. snd d \<noteq> None) ?files) = ?docs"
    by simp
  have t1: "rev (remdups (rev (map fst (named_entries ''complexType'' ?docs)))) = [''eml:T'']"
    by code_simp
  have t2: "map_of (rev (named_entries ''complexType'' ?docs)) ''eml:T'' =
              Some (mk_type ''T'' [mk_sequence [mk_element ''y'' ''xs:string'' ''1'' ''1'']])"
    by code_simp
  have s1: "rev (remdups (rev (map fst (named_entries ''simpleType'' ?docs)))) = [''eml:S'']"
    by code_simp
  have s2: "map_of (rev (named_entries ''simpleType'' ?docs)) ''eml:S'' =
              Some (mk_simpletype ''S'' ''xs:string'')"
    by code_simp
  have a1: "rev (remdups (rev (map fst (named_attributes (map fst ?docs))))) = [''id'']"
    by code_simp
  have a2: "map_of (rev (named_attributes (map fst ?docs))) ''id'' =
              Some (mk_attribute ''id'' ''required'')"
    by code_simp
  from load_schemas_fails_without_files_only [of ?files] c1
  obtain docs types attrs simpletypes where
    l: "load_schemas ?files = Inr (docs, types, attrs, simpletypes)"
    and d: "docs = map (\<lambda>d. (the (snd d), fst d)) (filter (\<lambda>d. snd d \<noteq> None) ?files)"
    and m1: "map_of types = map_of (rev (named_entries ''complexType'' docs))"
    and k1: "map fst types = rev (remdups (rev (map fst (named_entries ''complexType'' docs))))"
    and m2: "map_of simpletypes = map_of (rev (named_entries ''simpleType'' docs))"
    and k2: "map fst simpletypes =
               rev (remdups (rev (map fst (named_entries ''simpleType'' docs))))"
    and m3: "map_of attrs = map_of (rev (named_attributes (map fst docs)))"
    and k3: "map fst attrs = rev (remdups (rev (map fst (named_attributes (map fst docs)))))"
    by blast
  from d c2 have d': "docs = ?docs" by (rule trans)
  have c: "load_schemas ?files = Inr (?docs, types, attrs, simpletypes) \<and>
        map fst types = [''eml:T''] \<and>
        map_of types ''eml:T'' =
          Some (mk_type ''T'' [mk_sequence [mk_element ''y'' ''xs:string'' ''1'' ''1'']]) \<and>
        map fst simpletypes = [''eml:S''] \<and>
        map_of simpletypes ''eml:S'' = Some (mk_simpletype ''S'' ''xs:string'') \<and>
        map fst attrs = [''id''] \<and>
        map_of attrs ''id'' = Some (mk_attribute ''id'' ''required'')"
    using l t1 t2 s1 s2 a1 a2
    unfolding m1 k1 m2 k2 m3 k3 d'
    by blast
  have "\<exists>types attrs simpletypes.
      load_schemas ?files = Inr (?docs, types, attrs, simpletypes) \<and>
      map fst types = [''eml:T''] \<and>
      map_of types ''eml:T'' =
        Some (mk_type ''T'' [mk_sequence [mk_element ''y'' ''xs:string'' ''1'' ''1'']]) \<and>
      map fst simpletypes = [''eml:S''] \<and>
      map_of simpletypes ''eml:S'' = Some (mk_simpletype ''S'' ''xs:string'') \<and>
      map fst attrs = [''id''] \<and>
      map_of attrs ''id'' = Some (mk_attribute ''id'' ''required'')"
    using c by (intro exI [of _ types] exI [of _ attrs] exI [of _ simpletypes])
  with a b show ?thesis by (intro conjI)
qed

text \<open>
  The claim as the specification words it fails: one file that does not parse is, for the
  specification, a failed build, and \<open>load_schemas\<close> returns empty registries.
\<close>

theorem load_schemas_counterexample:
  "spec_build_fails [(''eml'', None)] \<and> load_schemas [(''eml'', None)] = Inr ([], [], [], [])"
  by code_simp

text \<open>
  What follows in \<open>analyze\<close>: when no file of the new version parses, every old type is
  reported as removed; when no file of the old version parses, the statistics at the end
  divide by the number of old types, which is zero.
\<close>

lemma analyze_without_parsed_files:
  "analyze serialize []
     [(''eml'', Some (schema_document (map snd (old_types renaming_analyzer))))]
     [(''eml'', None)] =
   Inr ([\<lparr>name = ''eml:Foo'', type_removed = ''Yes'', base_changed = [],
            r_notes = [Type_not_found_in_new_version], compatible = ''No'',
            structure_changes = [], new_elements = [], missing_elements = [],
            expanded_cardinality = [], restricted_cardinality = [], type_changes = []\<rparr>,
         \<lparr>name = ''eml:Old'', type_removed = ''Yes'', base_changed = [],
            r_notes = [Type_not_found_in_new_version], compatible = ''No'',
            structure_changes = [], new_elements = [], missing_elements = [],
            expanded_cardinality = [], restricted_cardinality = [], type_changes = []\<rparr>],
        []) \<and>
   analyze serialize [] [(''eml'', None)]
     [(''eml'', Some (schema_document (map snd (old_types renaming_analyzer))))] =
   Inl ZeroDivisionError"
  by code_simp

subsection \<open>Simple types\<close>

text \<open>
  C4, as the code has it. The \<open>compatible\<close> field of the record of a simple type is
  \<open>Yes\<close> exactly when the corresponding type is in the new registry. When it is not
  there, \<open>compatible\<close> is \<open>No\<close>, the type is reported as removed and the only note says
  so. When it is there, \<open>compatible\<close> is \<open>Yes\<close>, and \<open>restriction_changed\<close> is \<open>Yes\<close>
  exactly when the two serialized definitions differ (the serialization of the old one
  counting as the empty string when the old registry does not have the type): a
  difference adds the note "Restriction or base type changed" after the note of a
  renaming, if any, and nothing else; without a difference \<open>restriction_changed\<close> stays
  empty and no note is added.
\<close>

theorem simpletype_compatible_iff_present:
  fixes tostring :: "xml \<Rightarrow> string" and self :: analyzer and qualified_name :: string
    and mapped_name :: "string option"
  defines "r \<equiv> compare_simpletype tostring self qualified_name mapped_name"
    and "st_new \<equiv> map_of (new_simpletypes self) (effective_name qualified_name mapped_name)"
    and "old_str \<equiv> (case map_of (old_simpletypes self) qualified_name of
                        Some st_old \<Rightarrow> tostring st_old | None \<Rightarrow> [])"
    and "renamed \<equiv> (if truthy mapped_name
                      then [SimpleType_renamed qualified_name (the mapped_name)] else [])"
  shows "(compatible r = ''Yes'' \<longleftrightarrow> st_new \<noteq> None) \<and>
         (st_new = None \<longrightarrow>
            compatible r = ''No'' \<and> type_removed r = ''Yes'' \<and> restriction_changed r = [] \<and>
            r_notes r = [SimpleType_not_found_in_new_version]) \<and>
         (st_new \<noteq> None \<longrightarrow>
            compatible r = ''Yes'' \<and>
            (restriction_changed r = ''Yes'' \<longleftrightarrow> old_str \<noteq> tostring (the st_new)) \<and>
            (old_str \<noteq> tostring (the st_new) \<longrightarrow>
               r_notes r = renamed @ [Restriction_or_base_type_changed]) \<and>
            (old_str = tostring (the st_new) \<longrightarrow>
               restriction_changed r = [] \<and> r_notes r = renamed))"
  unfolding r_def st_new_def old_str_def renamed_def
  by (auto simp: compare_simpletype_def Let_def split: option.splits)

theorem simpletype_compatible_iff_present_witness:
  "compatible (compare_simpletype serialize renaming_analyzer ''eml:S'' None) = ''Yes'' \<and>
   restriction_changed (compare_simpletype serialize renaming_analyzer ''eml:S'' None) = ''Yes'' \<and>
   r_notes (compare_simpletype serialize renaming_analyzer ''eml:S'' None) =
     [Restriction_or_base_type_changed] \<and>
   compatible (compare_simpletype serialize renaming_analyzer ''eml:W'' None) = ''Yes'' \<and>
   restriction_changed (compare_simpletype serialize renaming_analyzer ''eml:W'' None) = ''Yes'' \<and>
   compatible (compare_simpletype serialize renaming_analyzer ''eml:K'' None) = ''Yes'' \<and>
   restriction_changed (compare_simpletype serialize renaming_analyzer ''eml:K'' None) = [] \<and>
   r_notes (compare_simpletype serialize renaming_analyzer ''eml:K'' None) = [] \<and>
   compatible (compare_simpletype serialize renaming_analyzer ''eml:Gone'' None) = ''No'' \<and>
   r_notes (compare_simpletype serialize renaming_analyzer ''eml:Gone'' None) =
     [SimpleType_not_found_in_new_version]"
proof -
  let ?new = "\<lambda>n. map_of (new_simpletypes renaming_analyzer) (effective_name n None)"
  let ?old = "\<lambda>n. case map_of (old_simpletypes renaming_analyzer) n of
                     Some st_old \<Rightarrow> serialize st_old | None \<Rightarrow> []"
  have s1: "?new ''eml:S'' \<noteq> None" by code_simp
  have s2: "?old ''eml:S'' \<noteq> serialize (the (?new ''eml:S''))" by code_simp
  have w1: "?new ''eml:W'' \<noteq> None" by code_simp
  have w2: "?old ''eml:W'' \<noteq> serialize (the (?new ''eml:W''))" by code_simp
  have k1: "?new ''eml:K'' \<noteq> None" by code_simp
  have k2: "?old ''eml:K'' = serialize (the (?new ''eml:K''))" by code_simp
  have g1: "?new ''eml:Gone'' = None" by code_simp
  have n: "(if truthy (None :: string option)
            then [SimpleType_renamed q (the None)] else []) = []" for q
    by (simp add: truthy_def)
  note S = simpletype_compatible_iff_present
             [where tostring = serialize and self = renaming_analyzer and
                    qualified_name = "''eml:S''" and mapped_name = None, unfolded n]
  note W = simpletype_compatible_iff_present
             [where tostring = serialize and self = renaming_analyzer and
                    qualified_name = "''eml:W''" and mapped_name = None, unfolded n]
  note K = simpletype_compatible_iff_present
             [where tostring = serialize and self = renaming_analyzer and
                    qualified_name = "''eml:K''" and mapped_name = None, unfolded n]
  note G = simpletype_compatible_iff_present
             [where tostring = serialize and self = renaming_analyzer and
                    qualified_name = "''eml:Gone''" and mapped_name = None, unfolded n]
  from S s1 s2
  have a: "compatible (compare_simpletype serialize renaming_analyzer ''eml:S'' None) = ''Yes'' \<and>
     restriction_changed (compare_simpletype serialize renaming_analyzer ''eml:S'' None) = ''Yes'' \<and>
     r_notes (compare_simpletype serialize renaming_analyzer ''eml:S'' None) =
       [] @ [Restriction_or_base_type_changed]"
    by blast
  from W w1 w2
  have b: "compatible (compare_simpletype serialize renaming_analyzer ''eml:W'' None) = ''Yes'' \<and>
     restriction_changed (compare_simpletype serialize renaming_analyzer ''eml:W'' None) = ''Yes''"
    by blast
  from K k1 k2
  have c: "compatible (compare_simpletype serialize renaming_analyzer ''eml:K'' None) = ''Yes'' \<and>
     restriction_changed (compare_simpletype serialize renaming_analyzer ''eml:K'' None) = [] \<and>
     r_notes (compare_simpletype serialize renaming_analyzer ''eml:K'' None) = []"
    by blast
  from G g1
  have d: "compatible (compare_simpletype serialize renaming_analyzer ''eml:Gone'' None) = ''No'' \<and>
     r_notes (compare_simpletype serialize renaming_analyzer ''eml:Gone'' None) =
       [SimpleType_not_found_in_new_version]"
    by blast
  from a b c d show ?thesis by simp
qed

text \<open>
  The claim as the specification words it fails: the base of \<open>eml:S\<close> changed from
  \<open>xs:string\<close> to \<open>xs:int\<close>, the serialized definitions differ, and the record says
  compatible.
\<close>

theorem simpletype_counterexample:
  "map_of (old_simpletypes renaming_analyzer) ''eml:S'' = Some (mk_simpletype ''S'' ''xs:string'') \<and>
   map_of (new_simpletypes renaming_analyzer) ''eml:S'' = Some (mk_simpletype ''S'' ''xs:int'') \<and>
   serialize (mk_simpletype ''S'' ''xs:string'') \<noteq> serialize (mk_simpletype ''S'' ''xs:int'') \<and>
   compatible (compare_simpletype serialize renaming_analyzer ''eml:S'' None) = ''Yes''"
  by code_simp

subsection \<open>The rename mapping\<close>

text \<open>
  C6, as the code has it. For an old qualified name with no exact entry in the mapping and
  an entry under its bare local name whose target is unqualified, the mapped name is the
  target re-qualified with the namespace label of the old name when that name is in the
  new registry, and the bare target itself when it is not: a mapping is applied in both
  cases.
\<close>

theorem bare_name_mapping:
  assumes "\<not> truthy (map_of mappings qualified_name)"
    and "map_of mappings (last (str_split CHR '':'' qualified_name)) = Some target"
    and "target \<noteq> []" and "\<not> List.member target CHR '':''"
  shows "mapped_name_for mappings new_registry qualified_name =
           (if map_of new_registry (hd (str_split CHR '':'' qualified_name) @ '':'' @ target) \<noteq> None
            then Some (hd (str_split CHR '':'' qualified_name) @ '':'' @ target)
            else Some target)"
  using assms by (simp add: mapped_name_for_def Let_def truthy_def)

theorem bare_name_mapping_witness:
  "mapped_name_for (type_mappings renaming_analyzer) (new_types renaming_analyzer) ''eml:Old'' =
     Some ''eml:New'' \<and>
   mapped_name_for (type_mappings renaming_analyzer) (new_types renaming_analyzer) ''eml:Foo'' =
     Some ''Bar''"
proof -
  have a1: "\<not> truthy (map_of (type_mappings renaming_analyzer) ''eml:Old'')" by code_simp
  have a2: "map_of (type_mappings renaming_analyzer) (last (str_split CHR '':'' ''eml:Old'')) =
              Some ''New''"
    by code_simp
  have a3: "''New'' \<noteq> []" by simp
  have a4: "\<not> List.member ''New'' CHR '':''" by code_simp
  have a5: "(if map_of (new_types renaming_analyzer)
                  (hd (str_split CHR '':'' ''eml:Old'') @ '':'' @ ''New'') \<noteq> None
             then Some (hd (str_split CHR '':'' ''eml:Old'') @ '':'' @ ''New'')
             else Some ''New'') = Some ''eml:New''"
    by code_simp
  have b1: "\<not> truthy (map_of (type_mappings renaming_analyzer) ''eml:Foo'')" by code_simp
  have b2: "map_of (type_mappings renaming_analyzer) (last (str_split CHR '':'' ''eml:Foo'')) =
              Some ''Bar''"
    by code_simp
  have b3: "''Bar'' \<noteq> []" by simp
  have b4: "\<not> List.member ''Bar'' CHR '':''" by code_simp
  have b5: "(if map_of (new_types renaming_analyzer)
                  (hd (str_split CHR '':'' ''eml:Foo'') @ '':'' @ ''Bar'') \<noteq> None
             then Some (hd (str_split CHR '':'' ''eml:Foo'') @ '':'' @ ''Bar'')
             else Some ''Bar'') = Some ''Bar''"
    by code_simp
  have "mapped_name_for (type_mappings renaming_analyzer) (new_types renaming_analyzer)
          ''eml:Old'' = Some ''eml:New''"
    by (rule trans [OF bare_name_mapping [OF a1 a2 a3 a4] a5])
  moreover have "mapped_name_for (type_mappings renaming_analyzer) (new_types renaming_analyzer)
          ''eml:Foo'' = Some ''Bar''"
    by (rule trans [OF bare_name_mapping [OF b1 b2 b3 b4] b5])
  ultimately show ?thesis by blast
qed

text \<open>
  The claim as the specification words it fails: \<open>eml:Bar\<close> is not in the new registry, so
  for the specification no mapping applies to \<open>eml:Foo\<close>, which is in the new registry
  under its own name; the code compares it under the bare target \<open>Bar\<close> and reports it as
  removed.
\<close>

theorem bare_name_mapping_counterexample:
  "map_of (type_mappings renaming_analyzer) ''eml:Foo'' = None \<and>
   map_of (new_types renaming_analyzer) ''eml:Bar'' = None \<and>
   map_of (new_types renaming_analyzer) ''eml:Foo'' \<noteq> None \<and>
   spec_mapped_name_for (type_mappings renaming_analyzer) (new_types renaming_analyzer)
     ''eml:Foo'' = None \<and>
   mapped_name_for (type_mappings renaming_analyzer) (new_types renaming_analyzer)
     ''eml:Foo'' = Some ''Bar'' \<and>
   record_of (compare_type renaming_analyzer (\<lambda>k. None) ''eml:Foo''
                (mapped_name_for (type_mappings renaming_analyzer)
                   (new_types renaming_analyzer) ''eml:Foo'')) =
     Inr \<lparr>name = ''eml:Foo'', type_removed = ''Yes'', base_changed = [],
           r_notes = [Type_not_found_in_new_version], compatible = ''No'',
           structure_changes = [], new_elements = [], missing_elements = [],
           expanded_cardinality = [], restricted_cardinality = [], type_changes = []\<rparr> \<and>
   record_of (compare_type renaming_analyzer (\<lambda>k. None) ''eml:Foo'' None) =
     Inr \<lparr>name = ''eml:Foo'', type_removed = ''No'', base_changed = [],
           r_notes = [], compatible = ''Yes'',
           structure_changes = [], new_elements = [], missing_elements = [],
           expanded_cardinality = [], restricted_cardinality = [], type_changes = []\<rparr>"
  by code_simp

end
